theory Spec2Isabelle
  imports Main "HOL-Library.Char_ord" "HOL-Library.List_Lexorder" "HOL-Library.Product_Lexorder"
    "HOL-Library.Multiset"
begin

section \<open>The repository audit script \<^verbatim>\<open>audit_repo.py\<close>\<close>

text \<open>
  The development embeds \<^verbatim>\<open>skills/optimizing-claude-code/scripts/audit_repo.py\<close>.
  Python \<^verbatim>\<open>str\<close> values are modelled as \<^typ>\<open>string\<close>; the model covers ASCII text,
  on which decoding a file's bytes as UTF-8 is the identity and one character is one byte.
  A character outside ASCII is treated as neither whitespace nor a word character and
  is left alone by \<^verbatim>\<open>lower()\<close>.
  Everything the script asks of its surroundings (the directory tree, the home
  directory, the account database, the version-control tool, the JSON parser of the
  standard library, the clock) is a field of an explicit environment; an uncaught
  Python exception is a value \<open>Inl e\<close>.
\<close>

subsection \<open>Python string operations\<close>

text \<open>\<^verbatim>\<open>str.isspace\<close> on one ASCII character: tab, LF, VT, FF, CR, FS, GS, RS, US, space.\<close>

definition is_space :: "char \<Rightarrow> bool" where
  "is_space c = (c \<in> set [CHR 0x09, CHR 0x0A, CHR 0x0B, CHR 0x0C, CHR 0x0D,
                          CHR 0x1C, CHR 0x1D, CHR 0x1E, CHR 0x1F, CHR 0x20])"

text \<open>The regular-expression class \<^verbatim>\<open>\w\<close> on ASCII: letters, digits, underscore.\<close>

definition is_word :: "char \<Rightarrow> bool" where
  "is_word c = (let n = (of_char c :: nat) in
     (48 \<le> n \<and> n \<le> 57) \<or> (65 \<le> n \<and> n \<le> 90) \<or> (97 \<le> n \<and> n \<le> 122) \<or> n = 95)"

definition lower_char :: "char \<Rightarrow> char" where
  "lower_char c = (let n = (of_char c :: nat) in
     if 65 \<le> n \<and> n \<le> 90 then char_of (n + 32) else c)"

text \<open>\<^verbatim>\<open>s.lower()\<close>\<close>

definition lower :: "string \<Rightarrow> string" where
  "lower s = map lower_char s"

text \<open>\<^verbatim>\<open>s.startswith(p)\<close>\<close>

definition startswith :: "string \<Rightarrow> string \<Rightarrow> bool" where
  "startswith s p = (take (length p) s = p)"

text \<open>\<^verbatim>\<open>sub in s\<close> on strings: \<open>sub\<close> occurs in \<open>s\<close> as a contiguous substring.\<close>

fun str_contains :: "string \<Rightarrow> string \<Rightarrow> bool" where
  "str_contains sub [] = (sub = [])"
| "str_contains sub (c # cs) = (startswith (c # cs) sub \<or> str_contains sub cs)"

text \<open>\<^verbatim>\<open>s.strip()\<close>\<close>

definition strip :: "string \<Rightarrow> string" where
  "strip s = rev (dropWhile is_space (rev (dropWhile is_space s)))"

text \<open>\<^verbatim>\<open>s.count("\n")\<close>\<close>

definition count_newlines :: "string \<Rightarrow> nat" where
  "count_newlines s = length (filter (\<lambda>c. c = CHR 0x0A) s)"

text \<open>
  \<^verbatim>\<open>s.split()\<close>: the maximal runs of non-whitespace characters. The first argument
  is the run read so far.
\<close>

fun split_from :: "string \<Rightarrow> string \<Rightarrow> string list" where
  "split_from w [] = (if w = [] then [] else [w])"
| "split_from w (c # cs) =
     (if is_space c then (if w = [] then split_from [] cs else w # split_from [] cs)
      else split_from (w @ [c]) cs)"

definition split :: "string \<Rightarrow> string list" where
  "split s = split_from [] s"

text \<open>
  \<^verbatim>\<open>s.splitlines()\<close> on ASCII text: a line ends at LF, CR, CR LF, VT, FF, FS, GS or
  RS, and no empty last line is produced. The flag says that the character before
  was a CR, whose following LF belongs to the same line end.
\<close>

definition is_linebreak :: "char \<Rightarrow> bool" where
  "is_linebreak c = (c \<in> set [CHR 0x0A, CHR 0x0D, CHR 0x0B, CHR 0x0C, CHR 0x1C, CHR 0x1D, CHR 0x1E])"

fun splitlines_from :: "bool \<Rightarrow> string \<Rightarrow> string \<Rightarrow> string list" where
  "splitlines_from cr w [] = (if w = [] then [] else [w])"
| "splitlines_from cr w (c # cs) =
     (if cr \<and> c = CHR 0x0A then splitlines_from False w cs
      else if is_linebreak c then w # splitlines_from (c = CHR 0x0D) [] cs
      else splitlines_from False (w @ [c]) cs)"

definition splitlines :: "string \<Rightarrow> string list" where
  "splitlines s = splitlines_from False [] s"

text \<open>\<^verbatim>\<open>sep.join(xs)\<close>\<close>

fun join :: "string \<Rightarrow> string list \<Rightarrow> string" where
  "join sep [] = []"
| "join sep [x] = x"
| "join sep (x # y # ys) = x @ sep @ join sep (y # ys)"

text \<open>\<^verbatim>\<open>str(n)\<close> for a natural number, as an f-string formats a count.\<close>

definition digit_char :: "nat \<Rightarrow> char" where
  "digit_char d = char_of (48 + d)"

fun str_nat :: "nat \<Rightarrow> string" where
  "str_nat n = (if n < 10 then [digit_char n] else str_nat (n div 10) @ [digit_char (n mod 10)])"

subsection \<open>The two regular expressions\<close>

text \<open>
  \<^verbatim>\<open>^#{1,6}\s+\<close> under \<^verbatim>\<open>re.MULTILINE\<close>. At a line start the pattern matches exactly
  when the maximal run of \<^verbatim>\<open>#\<close> there has between one and six characters and the
  character after the run is whitespace: with fewer \<^verbatim>\<open>#\<close> taken the next character
  is a \<^verbatim>\<open>#\<close>, which is not whitespace.
\<close>

definition heading_at :: "string \<Rightarrow> bool" where
  "heading_at s = (let k = length (takeWhile (\<lambda>c. c = CHR ''#'') s) in
     1 \<le> k \<and> k \<le> 6 \<and>
     (case dropWhile (\<lambda>c. c = CHR ''#'') s of [] \<Rightarrow> False | c # _ \<Rightarrow> is_space c))"

text \<open>
  \<^verbatim>\<open>re.findall(r'^#{1,6}\s+', text, re.MULTILINE)\<close>, counted. \<^verbatim>\<open>^\<close> holds at the start
  of the text and right after each LF. A match consumes \<^verbatim>\<open>#\<close> characters and then
  whitespace, and a match begins with \<^verbatim>\<open>#\<close> at a line start, so no match begins
  inside another one: the non-overlapping matches that \<^verbatim>\<open>findall\<close> returns are all
  the positions where the pattern matches. The flag says that the position is a line
  start.
\<close>

fun heading_matches :: "bool \<Rightarrow> string \<Rightarrow> nat" where
  "heading_matches bol [] = 0"
| "heading_matches bol (c # cs) =
     (if bol \<and> heading_at (c # cs) then 1 else 0) + heading_matches (c = CHR 0x0A) cs"

text \<open>\<^verbatim>\<open>_count_headings\<close>\<close>

definition count_headings :: "string \<Rightarrow> nat" where
  "count_headings text = heading_matches True text"

text \<open>\<^verbatim>\<open>bool(re.search(r'^#{1,6}\s+', text, re.MULTILINE))\<close>\<close>

definition search_heading :: "string \<Rightarrow> bool" where
  "search_heading text = (0 < heading_matches True text)"

text \<open>
  \<^verbatim>\<open>IMPORT_RE = (?<!`)\B@([~/.\w\-\s/]+[.\w\-\s/])\<close>. The first class is the second
  one with \<^verbatim>\<open>~\<close> added.
\<close>

definition import_last :: "char \<Rightarrow> bool" where
  "import_last c = (c = CHR ''.'' \<or> is_word c \<or> c = CHR ''-'' \<or> is_space c \<or> c = CHR ''/'')"

definition import_char :: "char \<Rightarrow> bool" where
  "import_char c = (c = CHR ''~'' \<or> import_last c)"

text \<open>
  The group matched right after an \<^verbatim>\<open>@\<close>: the greedy \<^verbatim>\<open>+\<close> takes the maximal run of
  characters of the first class and gives characters back until the last one is in
  the second class, that is, until the trailing \<^verbatim>\<open>~\<close> are gone; the run and the last
  character together need two characters.
\<close>

definition import_group :: "string \<Rightarrow> string option" where
  "import_group s = (let m = rev (dropWhile (\<lambda>c. c = CHR ''~'') (rev (takeWhile import_char s)))
     in if 2 \<le> length m then Some m else None)"

text \<open>
  \<^verbatim>\<open>IMPORT_RE.finditer(text)\<close>, the groups in order. The first argument is the
  character before the position (\<open>None\<close> at the start of the text): the \<^verbatim>\<open>@\<close> must
  not follow a backtick, and \<^verbatim>\<open>\B\<close> before the non-word character \<^verbatim>\<open>@\<close> asks that
  no word character precedes it. After a match the search goes on behind it.
\<close>

fun import_groups :: "char option \<Rightarrow> string \<Rightarrow> string list" where
  "import_groups prev [] = []"
| "import_groups prev (c # cs) =
     (if c = CHR ''@'' \<and> prev \<noteq> Some (CHR 0x60) \<and> (case prev of None \<Rightarrow> True | Some p \<Rightarrow> \<not> is_word p)
      then (case import_group cs of
              None \<Rightarrow> import_groups (Some c) cs
            | Some m \<Rightarrow> m # import_groups (Some (last m)) (drop (length m) cs))
      else import_groups (Some c) cs)"

text \<open>\<^verbatim>\<open>_extract_imports\<close>\<close>

definition extract_imports :: "string \<Rightarrow> string list" where
  "extract_imports text =
     filter (\<lambda>x. \<not> str_contains ''@'' x) (map strip (import_groups None text))"

subsection \<open>Paths and the directory tree\<close>

text \<open>
  A \<^verbatim>\<open>pathlib.Path\<close> on POSIX: whether it is absolute, and its components below
  the root; empty components and \<^verbatim>\<open>.\<close> are dropped when a path is built from a
  string, \<^verbatim>\<open>..\<close> is kept.
\<close>

datatype pypath = PyPath (is_absolute: bool) (names: "string list")

text \<open>\<^verbatim>\<open>s.split(sep)\<close> for a one-character separator; the first argument is the piece read so far.\<close>

fun split_on_from :: "char \<Rightarrow> string \<Rightarrow> string \<Rightarrow> string list" where
  "split_on_from sep w [] = [w]"
| "split_on_from sep w (c # cs) =
     (if c = sep then w # split_on_from sep [] cs else split_on_from sep (w @ [c]) cs)"

text \<open>
  \<^verbatim>\<open>Path(s)\<close>. A string that starts with exactly two slashes, which \<^verbatim>\<open>pathlib\<close>
  keeps apart from the same string with one slash and Linux resolves alike, is
  identified with it.
\<close>

definition Path :: "string \<Rightarrow> pypath" where
  "Path s = PyPath (startswith s ''/'')
     (filter (\<lambda>c. c \<noteq> [] \<and> c \<noteq> ''.'') (split_on_from (CHR ''/'') [] s))"

text \<open>\<^verbatim>\<open>a / b\<close> for two paths, and \<^verbatim>\<open>a / "name"\<close> for a path and a string.\<close>

definition joinpath :: "pypath \<Rightarrow> pypath \<Rightarrow> pypath" where
  "joinpath a b = (if is_absolute b then b else PyPath (is_absolute a) (names a @ names b))"

definition div_path :: "pypath \<Rightarrow> string \<Rightarrow> pypath" where
  "div_path a s = joinpath a (Path s)"

text \<open>The path of a directory entry, as \<^verbatim>\<open>iterdir\<close>, \<^verbatim>\<open>glob\<close> and \<^verbatim>\<open>rglob\<close> build it.\<close>

definition child_path :: "pypath \<Rightarrow> string list \<Rightarrow> pypath" where
  "child_path p rel = PyPath (is_absolute p) (names p @ rel)"

text \<open>\<^verbatim>\<open>str(p)\<close>, \<^verbatim>\<open>p.parts\<close>, \<^verbatim>\<open>p.parent\<close>, \<^verbatim>\<open>p.name\<close>, \<^verbatim>\<open>p.stem\<close>\<close>

definition str_path :: "pypath \<Rightarrow> string" where
  "str_path p = (if is_absolute p then ''/'' @ join ''/'' (names p)
                 else if names p = [] then ''.'' else join ''/'' (names p))"

definition parts :: "pypath \<Rightarrow> string list" where
  "parts p = (if is_absolute p then [''/''] else []) @ names p"

definition parent :: "pypath \<Rightarrow> pypath" where
  "parent p = PyPath (is_absolute p) (butlast (names p))"

definition name_of :: "pypath \<Rightarrow> string" where
  "name_of p = (if names p = [] then [] else last (names p))"

text \<open>
  \<^verbatim>\<open>p.stem\<close>: the name without its last suffix; a name that starts with its only
  dot, or ends with a dot, has no suffix.
\<close>

definition stem :: "pypath \<Rightarrow> string" where
  "stem p = (let n = name_of p; tl_len = length (takeWhile (\<lambda>c. c \<noteq> CHR ''.'') (rev n)) in
     if CHR ''.'' \<notin> set n \<or> tl_len = 0 \<or> tl_len + 1 = length n then n
     else take (length n - tl_len - 1) n)"

text \<open>
  \<^verbatim>\<open>str(p.relative_to(root))\<close>, with the \<^verbatim>\<open>ValueError\<close> branch of the callers:
  \<^verbatim>\<open>try: rel = str(p.relative_to(root)) except ValueError: rel = str(p)\<close>.
\<close>

definition rel_str :: "pypath \<Rightarrow> pypath \<Rightarrow> string" where
  "rel_str p root =
     (if is_absolute p = is_absolute root \<and> take (length (names root)) (names p) = names root
      then str_path (PyPath False (drop (length (names root)) (names p)))
      else str_path p)"

text \<open>
  The directory tree: a regular file with its bytes, or a directory with its entries
  in the order in which the operating system lists them. Symbolic links are not
  modelled.
\<close>

datatype node = File string | Dir "(string \<times> node) list"

text \<open>The node at a list of names below a node, none of them \<^verbatim>\<open>..\<close>.\<close>

fun lookup :: "node \<Rightarrow> string list \<Rightarrow> node option"
  and lookup_entry :: "(string \<times> node) list \<Rightarrow> string \<Rightarrow> string list \<Rightarrow> node option" where
  "lookup n [] = Some n"
| "lookup (File b) (c # cs) = None"
| "lookup (Dir es) (c # cs) = lookup_entry es c cs"
| "lookup_entry [] c cs = None"
| "lookup_entry (e # es) c cs = (if fst e = c then lookup (snd e) cs else lookup_entry es c cs)"

text \<open>
  Path resolution by the operating system, from the directory at \<open>cur\<close>: every
  component is looked up in an existing directory, and \<^verbatim>\<open>..\<close> goes to the parent
  (the root is its own parent).
\<close>

fun walk :: "node \<Rightarrow> string list \<Rightarrow> string list \<Rightarrow> node option" where
  "walk t cur [] = lookup t cur"
| "walk t cur (c # cs) =
     (case lookup t cur of
        Some (Dir es) \<Rightarrow> if c = ''..'' then walk t (butlast cur) cs else walk t (cur @ [c]) cs
      | _ \<Rightarrow> None)"

text \<open>
  \<^verbatim>\<open>p.resolve()\<close> without symbolic links: the path is made absolute and normalised by
  its text alone.
\<close>

fun normalise :: "string list \<Rightarrow> string list \<Rightarrow> string list" where
  "normalise cur [] = cur"
| "normalise cur (c # cs) = (if c = ''..'' then normalise (butlast cur) cs else normalise (cur @ [c]) cs)"

subsection \<open>The environment\<close>

text \<open>Python exceptions that escape the script.\<close>

datatype error = FileNotFoundError | NotADirectoryError | AttributeError | TypeError | IndexError

text \<open>
  \<^verbatim>\<open>subprocess.run\<close>: the program cannot be started (\<^verbatim>\<open>FileNotFoundError\<close>), or it
  ran and left a return code, its output and its error output.
\<close>

datatype completed = Not_started | Completed int string string

text \<open>
  A value returned by \<^verbatim>\<open>json.loads\<close>. A float is kept as mantissa and binary
  exponent; the script only asks whether it is zero.
\<close>

datatype json = JNone | JBool bool | JInt int | JFloat int int | JStr string
  | JList "json list" | JDict "(string \<times> json) list"

record env =
  tree :: node \<comment> \<open>the directory \<^verbatim>\<open>/\<close>\<close>
  cwd :: "string list" \<comment> \<open>the working directory of the process, below \<^verbatim>\<open>/\<close>\<close>
  home_var :: string \<comment> \<open>the environment variable \<^verbatim>\<open>HOME\<close>\<close>
  getpwnam :: "string \<Rightarrow> string option" \<comment> \<open>home directory of a named account\<close>
  dir_size :: "string list \<Rightarrow> nat" \<comment> \<open>\<^verbatim>\<open>st_size\<close> of a directory\<close>
  git_ls_files :: "pypath \<Rightarrow> completed" \<comment> \<open>\<^verbatim>\<open>git ls-files\<close> run in a directory\<close>
  git_log :: "pypath \<Rightarrow> string \<Rightarrow> completed"
    \<comment> \<open>\<^verbatim>\<open>git log -1 --format=%cI -- rel\<close> run in a directory\<close>
  json_loads :: "string \<Rightarrow> json option" \<comment> \<open>\<open>None\<close> when \<^verbatim>\<open>json.loads\<close> raises\<close>
  py_str :: "json \<Rightarrow> string" \<comment> \<open>\<^verbatim>\<open>str(v)\<close> of a parsed value\<close>
  now_iso :: string \<comment> \<open>\<^verbatim>\<open>datetime.now(timezone.utc).isoformat()\<close>\<close>

text \<open>\<^verbatim>\<open>os.stat\<close> of a path: the node it names, if any.\<close>

definition stat :: "env \<Rightarrow> pypath \<Rightarrow> node option" where
  "stat e p = walk (tree e) (if is_absolute p then [] else cwd e) (names p)"

definition exists :: "env \<Rightarrow> pypath \<Rightarrow> bool" where
  "exists e p = (stat e p \<noteq> None)"

definition is_file :: "env \<Rightarrow> pypath \<Rightarrow> bool" where
  "is_file e p = (case stat e p of Some (File b) \<Rightarrow> True | _ \<Rightarrow> False)"

definition is_dir :: "env \<Rightarrow> pypath \<Rightarrow> bool" where
  "is_dir e p = (case stat e p of Some (Dir es) \<Rightarrow> True | _ \<Rightarrow> False)"

text \<open>\<^verbatim>\<open>p.stat().st_size\<close> of an existing path.\<close>

definition st_size :: "env \<Rightarrow> pypath \<Rightarrow> nat" where
  "st_size e p = (case stat e p of Some (File b) \<Rightarrow> length b
     | _ \<Rightarrow> dir_size e (normalise (if is_absolute p then [] else cwd e) (names p)))"

definition resolve :: "env \<Rightarrow> pypath \<Rightarrow> pypath" where
  "resolve e p = PyPath True (normalise (if is_absolute p then [] else cwd e) (names p))"

text \<open>\<^verbatim>\<open>p.iterdir()\<close>, consumed by a \<^verbatim>\<open>for\<close> loop.\<close>

definition iterdir :: "env \<Rightarrow> pypath \<Rightarrow> error + pypath list" where
  "iterdir e p = (case stat e p of
       None \<Rightarrow> Inl FileNotFoundError
     | Some (File b) \<Rightarrow> Inl NotADirectoryError
     | Some (Dir es) \<Rightarrow> Inr (map (\<lambda>x. child_path p [fst x]) es))"

text \<open>
  The names below a directory that a recursive glob yields, each as the list of names
  from the directory: first the matching entries of the directory itself, then, entry
  by entry, those of each subdirectory. Hidden entries are included. This is
  \<^verbatim>\<open>pathlib\<close> on a tree of readable directories and regular files only: a
  symbolic link to a directory and a directory that cannot be listed are not entered
  by \<^verbatim>\<open>rglob\<close>, and the tree of the model has neither.
\<close>

fun rglob_rel :: "(string \<Rightarrow> bool) \<Rightarrow> node \<Rightarrow> string list list"
  and rglob_sub :: "(string \<Rightarrow> bool) \<Rightarrow> (string \<times> node) list \<Rightarrow> string list list" where
  "rglob_rel pat (File b) = []"
| "rglob_rel pat (Dir es) = map (\<lambda>x. [fst x]) (filter (\<lambda>x. pat (fst x)) es) @ rglob_sub pat es"
| "rglob_sub pat [] = []"
| "rglob_sub pat (x # es) = map (\<lambda>r. fst x # r) (rglob_rel pat (snd x)) @ rglob_sub pat es"

text \<open>\<^verbatim>\<open>p.rglob(pattern)\<close>; nothing is yielded when \<open>p\<close> is not a directory.\<close>

definition rglob :: "env \<Rightarrow> pypath \<Rightarrow> (string \<Rightarrow> bool) \<Rightarrow> pypath list" where
  "rglob e p pat = (case stat e p of
       Some (Dir es) \<Rightarrow> map (child_path p) (rglob_rel pat (Dir es))
     | _ \<Rightarrow> [])"

text \<open>\<^verbatim>\<open>p.glob("*.md")\<close>\<close>

definition glob_md :: "env \<Rightarrow> pypath \<Rightarrow> pypath list" where
  "glob_md e p = (case stat e p of
       Some (Dir es) \<Rightarrow>
         map (\<lambda>x. child_path p [fst x])
           (filter (\<lambda>x. 3 \<le> length (fst x) \<and> drop (length (fst x) - 3) (fst x) = ''.md'') es)
     | _ \<Rightarrow> [])"

text \<open>
  \<^verbatim>\<open>os.path.expanduser\<close> of \<^verbatim>\<open>posixpath\<close>, with \<^verbatim>\<open>HOME\<close> set: \<^verbatim>\<open>~\<close> alone or before a
  slash is the value of \<^verbatim>\<open>HOME\<close>; \<^verbatim>\<open>~name\<close> is the home directory of the account
  \<open>name\<close>, and the path is returned unchanged when there is no such account.
\<close>

definition expanduser :: "env \<Rightarrow> string \<Rightarrow> string" where
  "expanduser e path =
     (if \<not> startswith path ''~'' then path
      else let i = Suc (length (takeWhile (\<lambda>c. c \<noteq> CHR ''/'') (tl path))) in
        case (if i = 1 then Some (home_var e) else getpwnam e (take (i - 1) (tl path))) of
          None \<Rightarrow> path
        | Some userhome \<Rightarrow>
            (let r = rev (dropWhile (\<lambda>c. c = CHR ''/'') (rev userhome)) @ drop i path
             in if r = [] then ''/'' else r))"

text \<open>\<^verbatim>\<open>Path.home()\<close>\<close>

definition home :: "env \<Rightarrow> pypath" where
  "home e = Path (expanduser e ''~'')"

subsection \<open>Safe readers\<close>

text \<open>\<^verbatim>\<open>_safe_read_text\<close>: reading anything but a regular file raises, which gives the empty text.\<close>

definition safe_read_text :: "env \<Rightarrow> pypath \<Rightarrow> string" where
  "safe_read_text e p = (case stat e p of Some (File b) \<Rightarrow> take 2000000 b | _ \<Rightarrow> [])"

text \<open>\<^verbatim>\<open>_safe_read_json\<close>\<close>

definition safe_read_json :: "env \<Rightarrow> pypath \<Rightarrow> json option" where
  "safe_read_json e p = json_loads e (safe_read_text e p)"

subsection \<open>Version-control bridge\<close>

text \<open>\<^verbatim>\<open>_run\<close>, for the two commands the script runs.\<close>

definition run :: "completed \<Rightarrow> error + (int \<times> string \<times> string)" where
  "run r = (case r of Not_started \<Rightarrow> Inl FileNotFoundError
     | Completed rc out err \<Rightarrow> Inr (rc, strip out, strip err))"

text \<open>\<^verbatim>\<open>_is_git_repo\<close>\<close>

definition is_git_repo :: "env \<Rightarrow> pypath \<Rightarrow> bool" where
  "is_git_repo e root = exists e (div_path root ''.git'')"

text \<open>\<^verbatim>\<open>_git_tracked_files\<close>\<close>

definition git_tracked_files :: "env \<Rightarrow> pypath \<Rightarrow> error + string list option" where
  "git_tracked_files e root =
     (case run (git_ls_files e root) of
        Inl x \<Rightarrow> Inl x
      | Inr (rc, out, err) \<Rightarrow>
          if rc \<noteq> 0 then Inr None
          else Inr (Some (filter (\<lambda>line. strip line \<noteq> []) (splitlines out))))"

text \<open>\<^verbatim>\<open>_git_last_commit_iso\<close>\<close>

definition git_last_commit_iso :: "env \<Rightarrow> pypath \<Rightarrow> string \<Rightarrow> error + string option" where
  "git_last_commit_iso e root rel_path =
     (case run (git_log e root rel_path) of
        Inl x \<Rightarrow> Inl x
      | Inr (rc, out, err) \<Rightarrow>
          if rc \<noteq> 0 \<or> out = [] then Inr None
          else (case splitlines out of [] \<Rightarrow> Inl IndexError | l # ls \<Rightarrow> Inr (Some (strip l))))"

subsection \<open>Reference resolution\<close>

text \<open>\<^verbatim>\<open>_resolve_import\<close>\<close>

definition resolve_import :: "env \<Rightarrow> pypath \<Rightarrow> string \<Rightarrow> pypath \<Rightarrow> pypath" where
  "resolve_import e base_dir raw0 repo_root =
     (let raw = strip raw0 in
      if startswith raw ''~'' then Path (expanduser e raw)
      else let p = Path raw in
        if is_absolute p then p
        else resolve e (joinpath base_dir p))"

subsection \<open>Report records\<close>

text \<open>
  The dataclasses of the script. Several of them have fields of the same name, so
  each field carries a prefix for its class.
\<close>

record MemoryFileReport =
  mem_path :: string
  mem_exists :: bool
  mem_bytes :: nat
  mem_lines :: nat
  mem_word_count :: nat
  mem_has_headings :: bool
  mem_heading_count :: nat
  mem_imports :: "string list"
  mem_missing_imports :: "string list"
  mem_last_git_commit_iso :: "string option"
  mem_scope :: string
  mem_issues :: "string list"
  mem_recommendations :: "string list"

record SettingsFileReport =
  set_path :: string
  set_exists :: bool
  set_scope :: string
  set_bytes :: nat
  set_has_allowed_tools :: bool
  set_has_deny_tools :: bool
  set_has_custom_instructions :: bool
  set_has_mcp_servers :: bool
  set_mcp_server_count :: nat
  set_issues :: "string list"

record MCPConfigReport =
  mcp_path :: string
  mcp_exists :: bool
  mcp_scope :: string
  mcp_server_count :: nat
  mcp_servers :: "string list"
  mcp_issues :: "string list"

record SkillReport =
  skill_path :: string
  skill_name :: string
  skill_scope :: string
  skill_has_description :: bool
  skill_has_scripts :: bool
  skill_has_references :: bool
  skill_has_assets :: bool
  skill_md_lines :: nat
  skill_issues :: "string list"

record SubagentReport =
  sub_path :: string
  sub_name :: string
  sub_scope :: string
  sub_has_description :: bool
  agent_md_lines :: nat
  sub_issues :: "string list"

text \<open>The dataclass defaults: \<^verbatim>\<open>MemoryFileReport(path=.., exists=.., scope=..)\<close> and its like.\<close>

definition MemoryFileReport :: "string \<Rightarrow> bool \<Rightarrow> string \<Rightarrow> MemoryFileReport" where
  "MemoryFileReport p ex sc =
     \<lparr>mem_path = p, mem_exists = ex, mem_bytes = 0, mem_lines = 0, mem_word_count = 0,
      mem_has_headings = False, mem_heading_count = 0, mem_imports = [], mem_missing_imports = [],
      mem_last_git_commit_iso = None, mem_scope = sc, mem_issues = [], mem_recommendations = []\<rparr>"

definition SettingsFileReport :: "string \<Rightarrow> bool \<Rightarrow> string \<Rightarrow> SettingsFileReport" where
  "SettingsFileReport p ex sc =
     \<lparr>set_path = p, set_exists = ex, set_scope = sc, set_bytes = 0, set_has_allowed_tools = False,
      set_has_deny_tools = False, set_has_custom_instructions = False, set_has_mcp_servers = False,
      set_mcp_server_count = 0, set_issues = []\<rparr>"

definition MCPConfigReport :: "string \<Rightarrow> bool \<Rightarrow> string \<Rightarrow> MCPConfigReport" where
  "MCPConfigReport p ex sc =
     \<lparr>mcp_path = p, mcp_exists = ex, mcp_scope = sc, mcp_server_count = 0, mcp_servers = [],
      mcp_issues = []\<rparr>"

subsection \<open>Exceptions and parsed JSON values\<close>

text \<open>Sequencing of steps that may raise.\<close>

definition and_then :: "error + 'a \<Rightarrow> ('a \<Rightarrow> error + 'b) \<Rightarrow> error + 'b" where
  "and_then m f = (case m of Inl x \<Rightarrow> Inl x | Inr v \<Rightarrow> f v)"

text \<open>A list comprehension \<^verbatim>\<open>[f(x) for x in xs]\<close> whose body may raise.\<close>

fun map_raising :: "('a \<Rightarrow> error + 'b) \<Rightarrow> 'a list \<Rightarrow> error + 'b list" where
  "map_raising f [] = Inr []"
| "map_raising f (x # xs) =
     (case f x of Inl err \<Rightarrow> Inl err
      | Inr y \<Rightarrow> (case map_raising f xs of Inl err \<Rightarrow> Inl err | Inr ys \<Rightarrow> Inr (y # ys)))"

text \<open>\<^verbatim>\<open>bool(v)\<close>\<close>

fun truthy :: "json \<Rightarrow> bool" where
  "truthy JNone = False"
| "truthy (JBool b) = b"
| "truthy (JInt i) = (i \<noteq> 0)"
| "truthy (JFloat m x) = (m \<noteq> 0)"
| "truthy (JStr s) = (s \<noteq> [])"
| "truthy (JList xs) = (xs \<noteq> [])"
| "truthy (JDict kvs) = (kvs \<noteq> [])"

text \<open>\<^verbatim>\<open>v.get(key, default)\<close>: only a dict has the method.\<close>

fun dict_get :: "json \<Rightarrow> string \<Rightarrow> json \<Rightarrow> error + json" where
  "dict_get (JDict kvs) k d = Inr (case map_of kvs k of None \<Rightarrow> d | Some v \<Rightarrow> v)"
| "dict_get v k d = Inl AttributeError"

text \<open>\<^verbatim>\<open>len(v)\<close>\<close>

fun py_len :: "json \<Rightarrow> error + nat" where
  "py_len (JDict kvs) = Inr (length kvs)"
| "py_len (JList xs) = Inr (length xs)"
| "py_len (JStr s) = Inr (length s)"
| "py_len v = Inl TypeError"

text \<open>\<^verbatim>\<open>list(v.keys())\<close>\<close>

fun dict_keys :: "json \<Rightarrow> error + string list" where
  "dict_keys (JDict kvs) = Inr (map fst kvs)"
| "dict_keys v = Inl AttributeError"

text \<open>\<^verbatim>\<open>s in v\<close> for a string \<open>s\<close>\<close>

fun py_in :: "string \<Rightarrow> json \<Rightarrow> error + bool" where
  "py_in s (JList xs) = Inr (JStr s \<in> set xs)"
| "py_in s (JStr t) = Inr (str_contains s t)"
| "py_in s (JDict kvs) = Inr (s \<in> set (map fst kvs))"
| "py_in s v = Inl TypeError"

subsection \<open>Memory documents\<close>

text \<open>\<^verbatim>\<open>_discover_memory_files\<close>. The nested search appends a path unless it is already a candidate.\<close>

fun add_nested :: "string \<Rightarrow> (pypath \<times> string) list \<Rightarrow> pypath list \<Rightarrow> (pypath \<times> string) list" where
  "add_nested scope candidates [] = candidates"
| "add_nested scope candidates (p # ps) =
     add_nested scope (if p \<notin> set (map fst candidates) then candidates @ [(p, scope)] else candidates) ps"

definition project_locations :: "pypath \<Rightarrow> (pypath \<times> string) list" where
  "project_locations root =
     [(div_path root ''CLAUDE.md'', ''project''),
      (div_path (div_path root ''.claude'') ''CLAUDE.md'', ''project''),
      (div_path root ''CLAUDE.local.md'', ''local''),
      (div_path (div_path root ''.claude'') ''CLAUDE.local.md'', ''local'')]"

definition discover_memory_files :: "env \<Rightarrow> pypath \<Rightarrow> (pypath \<times> string) list" where
  "discover_memory_files e root =
     add_nested ''local-nested''
       (add_nested ''project-nested'' (project_locations root)
          (rglob e root (\<lambda>n. n = ''CLAUDE.md'')))
       (rglob e root (\<lambda>n. n = ''CLAUDE.local.md''))"

text \<open>The issues and recommendations of \<^verbatim>\<open>_analyze_memory_file\<close>, in the order of the appends.\<close>

definition memory_issues :: "string \<Rightarrow> nat \<Rightarrow> string list \<Rightarrow> bool \<Rightarrow> string list" where
  "memory_issues scope lines missing has_headings =
     (if str_contains ''local'' scope
      then [''CLAUDE.local.md is deprecated; prefer @imports in CLAUDE.md''] else []) @
     (if lines > 500
      then [''Very large ('' @ str_nat lines @ '' lines); consider splitting via @imports''] else []) @
     (if missing \<noteq> [] then [''Missing @imports: '' @ join '', '' missing] else []) @
     (if \<not> has_headings
      then [''No markdown headings; structure may be hard for agents to parse''] else [])"

definition missing_sections :: "string \<Rightarrow> string list" where
  "missing_sections text_lower =
     (if \<not> str_contains ''build'' text_lower \<and> \<not> str_contains ''test'' text_lower
         \<and> \<not> str_contains ''lint'' text_lower
      then [''commands (build/test/lint)''] else []) @
     (if \<not> str_contains ''architecture'' text_lower \<and> \<not> str_contains ''structure'' text_lower
      then [''architecture overview''] else [])"

definition memory_recommendations :: "string \<Rightarrow> nat \<Rightarrow> bool \<Rightarrow> nat \<Rightarrow> bool \<Rightarrow> string list" where
  "memory_recommendations text lines has_headings word_count ex =
     (if lines > 500
      then [''Keep top-level CLAUDE.md concise; extract details to imported files'']
      else if lines > 300
      then [''Consider splitting larger sections into @imported files''] else []) @
     (if \<not> has_headings
      then [''Add section headings for Commands, Architecture, Conventions, etc.''] else []) @
     (if word_count < 50 \<and> ex
      then [''Very minimal content; consider adding project conventions and commands''] else []) @
     (if missing_sections (lower text) \<noteq> []
      then [''Consider adding: '' @ join '', '' (missing_sections (lower text))] else [])"

text \<open>\<^verbatim>\<open>_analyze_memory_file\<close>\<close>

definition analyze_memory_file ::
  "env \<Rightarrow> pypath \<Rightarrow> string \<Rightarrow> pypath \<Rightarrow> string list option \<Rightarrow> error + MemoryFileReport" where
  "analyze_memory_file e path scope root tracked =
     (let rel = rel_str path root;
          report = MemoryFileReport rel (exists e path \<and> is_file e path) scope
      in if \<not> mem_exists report then Inr report
      else
        let text = safe_read_text e path;
            lines = count_newlines text + (if text \<noteq> [] then 1 else 0);
            word_count = length (split text);
            has_headings = search_heading text;
            imports = extract_imports text;
            base_dir = parent path;
            missing = filter (\<lambda>imp. \<not> exists e (resolve_import e base_dir imp root)) imports
        in and_then (case tracked of None \<Rightarrow> Inr None | Some t \<Rightarrow> git_last_commit_iso e root rel)
          (\<lambda>last_commit. Inr (report\<lparr>
              mem_bytes := st_size e path,
              mem_lines := lines,
              mem_word_count := word_count,
              mem_has_headings := has_headings,
              mem_heading_count := count_headings text,
              mem_imports := imports,
              mem_missing_imports := missing,
              mem_last_git_commit_iso := last_commit,
              mem_issues := memory_issues scope lines missing has_headings,
              mem_recommendations :=
                memory_recommendations text lines has_headings word_count (mem_exists report)\<rparr>)))"

subsection \<open>Settings files and connector configurations\<close>

text \<open>\<^verbatim>\<open>_discover_settings_files\<close>\<close>

definition discover_settings_files :: "env \<Rightarrow> pypath \<Rightarrow> (pypath \<times> string) list" where
  "discover_settings_files e root =
     [(div_path (div_path (home e) ''.claude'') ''settings.json'', ''user''),
      (div_path (div_path root ''.claude'') ''settings.json'', ''project''),
      (div_path (div_path root ''.claude'') ''settings.local.json'', ''local'')] @
     map (\<lambda>mp. (mp, ''managed''))
       (filter (exists e)
          [Path ''/etc/claude/settings.json'',
           div_path (div_path (div_path (home e) ''.config'') ''claude'') ''managed-settings.json''])"

text \<open>\<^verbatim>\<open>_analyze_settings_file\<close>\<close>

definition analyze_settings_file :: "env \<Rightarrow> pypath \<Rightarrow> string \<Rightarrow> error + SettingsFileReport" where
  "analyze_settings_file e path scope =
     (let report = SettingsFileReport (str_path path) (exists e path) scope
      in if \<not> set_exists report then Inr report
      else
        let report = report\<lparr>set_bytes := st_size e path\<rparr> in
        case safe_read_json e path of
          None \<Rightarrow> Inr (report\<lparr>set_issues := [''Invalid JSON format'']\<rparr>)
        | Some JNone \<Rightarrow> Inr (report\<lparr>set_issues := [''Invalid JSON format'']\<rparr>)
        | Some data \<Rightarrow>
            and_then (and_then (dict_get data ''permissions'' (JDict [])) (\<lambda>p. dict_get p ''allow'' JNone))
              (\<lambda>allow.
            and_then (and_then (dict_get data ''permissions'' (JDict [])) (\<lambda>p. dict_get p ''deny'' JNone))
              (\<lambda>deny.
            and_then (dict_get data ''customInstructions'' JNone)
              (\<lambda>custom.
            and_then (dict_get data ''mcpServers'' (JDict []))
              (\<lambda>mcp_servers.
            and_then (py_len mcp_servers)
              (\<lambda>n.
            let report = report\<lparr>
                  set_has_allowed_tools := truthy allow,
                  set_has_deny_tools := truthy deny,
                  set_has_custom_instructions := truthy custom,
                  set_has_mcp_servers := truthy mcp_servers,
                  set_mcp_server_count := n\<rparr>
            in if set_has_allowed_tools report
               then
                 and_then (and_then (dict_get data ''permissions'' (JDict []))
                             (\<lambda>p. dict_get p ''allow'' (JList [])))
                   (\<lambda>allowed.
                 and_then (py_in ''Bash(*)'' allowed)
                   (\<lambda>listed.
                 Inr (if listed \<or> str_contains (''Bash(*)'' @ [CHR 0x27]) (py_str e allowed)
                      then report\<lparr>set_issues :=
                             [''Overly permissive Bash(*) in allowed tools - security risk'']\<rparr>
                      else report)))
               else Inr report))))))"

text \<open>\<^verbatim>\<open>_discover_mcp_configs\<close>\<close>

definition discover_mcp_configs :: "env \<Rightarrow> pypath \<Rightarrow> (pypath \<times> string) list" where
  "discover_mcp_configs e root =
     [(div_path (div_path (home e) ''.claude'') ''mcp.json'', ''user''),
      (div_path root ''.mcp.json'', ''project''),
      (div_path (div_path root ''.claude'') ''mcp.json'', ''project'')]"

text \<open>\<^verbatim>\<open>_analyze_mcp_config\<close>\<close>

definition analyze_mcp_config :: "env \<Rightarrow> pypath \<Rightarrow> string \<Rightarrow> error + MCPConfigReport" where
  "analyze_mcp_config e path scope =
     (let report = MCPConfigReport (str_path path) (exists e path) scope
      in if \<not> mcp_exists report then Inr report
      else
        case safe_read_json e path of
          None \<Rightarrow> Inr (report\<lparr>mcp_issues := [''Invalid JSON format'']\<rparr>)
        | Some JNone \<Rightarrow> Inr (report\<lparr>mcp_issues := [''Invalid JSON format'']\<rparr>)
        | Some data \<Rightarrow>
            and_then (dict_get data ''mcpServers'' (JDict []))
              (\<lambda>servers.
            and_then (py_len servers)
              (\<lambda>n.
            and_then (dict_keys servers)
              (\<lambda>ks.
            Inr (report\<lparr>
                  mcp_server_count := n,
                  mcp_servers := ks,
                  mcp_issues :=
                    (if n > 10
                     then [''Many MCP servers ('' @ str_nat n
                             @ ''); may impact context with lazy loading disabled'']
                     else [])\<rparr>)))))"

subsection \<open>Skills and subagents\<close>

text \<open>
  One of the two loops of \<^verbatim>\<open>_discover_skills\<close>: the directories below \<open>d\<close> that hold a
  \<^verbatim>\<open>SKILL.md\<close>, when \<open>d\<close> exists.
\<close>

definition skills_in :: "env \<Rightarrow> pypath \<Rightarrow> string \<Rightarrow> error + (pypath \<times> string) list" where
  "skills_in e d scope =
     (if exists e d
      then and_then (iterdir e d)
        (\<lambda>ps. Inr (map (\<lambda>skill_dir. (skill_dir, scope))
           (filter (\<lambda>skill_dir. is_dir e skill_dir \<and> exists e (div_path skill_dir ''SKILL.md'')) ps)))
      else Inr [])"

text \<open>\<^verbatim>\<open>_discover_skills\<close>\<close>

definition discover_skills :: "env \<Rightarrow> pypath \<Rightarrow> error + (pypath \<times> string) list" where
  "discover_skills e root =
     and_then (skills_in e (div_path (div_path (home e) ''.claude'') ''skills'') ''user'')
       (\<lambda>user_skills.
     and_then (skills_in e (div_path (div_path root ''.claude'') ''skills'') ''project'')
       (\<lambda>project_skills. Inr (user_skills @ project_skills)))"

text \<open>\<^verbatim>\<open>_analyze_skill\<close>\<close>

definition analyze_skill :: "env \<Rightarrow> pypath \<Rightarrow> string \<Rightarrow> pypath \<Rightarrow> SkillReport" where
  "analyze_skill e skill_dir scope root =
     (let skill_md = div_path skill_dir ''SKILL.md'';
          report = \<lparr>skill_path = rel_str skill_dir root,
                    skill_name = name_of skill_dir,
                    skill_scope = scope,
                    skill_has_description = False,
                    skill_has_scripts = exists e (div_path skill_dir ''scripts''),
                    skill_has_references = exists e (div_path skill_dir ''references''),
                    skill_has_assets = exists e (div_path skill_dir ''assets''),
                    skill_md_lines = 0,
                    skill_issues = []\<rparr>
      in if exists e skill_md
         then
           let text = safe_read_text e skill_md;
               lines = count_newlines text + 1
           in report\<lparr>
                skill_md_lines := lines,
                skill_has_description := str_contains ''description:'' text,
                skill_issues :=
                  (if str_contains ''description:'' text then []
                   else [''Missing description in SKILL.md frontmatter'']) @
                  (if lines > 500
                   then [''SKILL.md very large ('' @ str_nat lines @ '' lines); consider using references/'']
                   else [])\<rparr>
         else report)"

text \<open>\<^verbatim>\<open>_discover_subagents\<close>\<close>

definition agents_in :: "env \<Rightarrow> pypath \<Rightarrow> string \<Rightarrow> (pypath \<times> string) list" where
  "agents_in e d scope =
     (if exists e d then map (\<lambda>agent_file. (agent_file, scope)) (glob_md e d) else [])"

definition discover_subagents :: "env \<Rightarrow> pypath \<Rightarrow> (pypath \<times> string) list" where
  "discover_subagents e root =
     agents_in e (div_path (div_path (home e) ''.claude'') ''agents'') ''user'' @
     agents_in e (div_path (div_path root ''.claude'') ''agents'') ''project''"

text \<open>\<^verbatim>\<open>_analyze_subagent\<close>\<close>

definition analyze_subagent :: "env \<Rightarrow> pypath \<Rightarrow> string \<Rightarrow> pypath \<Rightarrow> SubagentReport" where
  "analyze_subagent e agent_path scope root =
     (let report = \<lparr>sub_path = rel_str agent_path root,
                    sub_name = stem agent_path,
                    sub_scope = scope,
                    sub_has_description = False,
                    agent_md_lines = 0,
                    sub_issues = []\<rparr>
      in if exists e agent_path
         then
           let text = safe_read_text e agent_path
           in report\<lparr>
                agent_md_lines := count_newlines text + 1,
                sub_has_description :=
                  (str_contains ''description:'' (lower text) \<or> strip text \<noteq> [])\<rparr>
         else report)"

subsection \<open>Repository scale\<close>

definition exclude_dirs :: "string list" where
  "exclude_dirs = [''node_modules'', ''.git'', ''dist'', ''build'', ''.venv'', ''__pycache__'']"

text \<open>
  The fallback count of \<^verbatim>\<open>audit\<close>: the regular files below the root none of whose
  \<^verbatim>\<open>parts\<close> is an excluded name.
\<close>

definition walk_file_count :: "env \<Rightarrow> pypath \<Rightarrow> nat" where
  "walk_file_count e root =
     length (filter (\<lambda>p. is_file e p \<and> \<not> (\<exists>part \<in> set (parts p). part \<in> set exclude_dirs))
       (rglob e root (\<lambda>n. True)))"

text \<open>
  \<^verbatim>\<open>top_dirs[top] = top_dirs.get(top, 0) + 1\<close> and \<^verbatim>\<open>top_dirs[name] = count\<close> on a dict
  kept as the list of its items in insertion order.
\<close>

fun dict_bump :: "(string \<times> nat) list \<Rightarrow> string \<Rightarrow> (string \<times> nat) list" where
  "dict_bump [] k = [(k, 1)]"
| "dict_bump (kv # kvs) k = (if fst kv = k then (k, snd kv + 1) # kvs else kv # dict_bump kvs k)"

fun dict_set :: "(string \<times> nat) list \<Rightarrow> string \<Rightarrow> nat \<Rightarrow> (string \<times> nat) list" where
  "dict_set [] k v = [(k, v)]"
| "dict_set (kv # kvs) k v = (if fst kv = k then (k, v) # kvs else kv # dict_set kvs k v)"

text \<open>\<^verbatim>\<open>parts = f.split("/", 1); top = parts[0] if len(parts) > 1 else "."\<close>\<close>

definition top_of :: "string \<Rightarrow> string" where
  "top_of f = (if CHR ''/'' \<in> set f then takeWhile (\<lambda>c. c \<noteq> CHR ''/'') f else ''.'')"

text \<open>\<^verbatim>\<open>_get_directory_stats\<close>; the sort is stable and descending in the count.\<close>

definition get_directory_stats ::
  "env \<Rightarrow> pypath \<Rightarrow> string list option \<Rightarrow> error + (string \<times> nat) list" where
  "get_directory_stats e root tracked =
     and_then
       (case tracked of
          Some t \<Rightarrow> Inr (foldl (\<lambda>top_dirs f. dict_bump top_dirs (top_of f)) [] t)
        | None \<Rightarrow>
            and_then (iterdir e root)
              (\<lambda>ps. Inr (foldl
                 (\<lambda>top_dirs p.
                    if is_dir e p \<and> name_of p \<notin> set [''.git'', ''node_modules'', ''dist'', ''build'',
                                                       ''.venv'', ''__pycache__'']
                    then dict_set top_dirs (name_of p)
                           (length (filter (is_file e) (rglob e p (\<lambda>n. True))))
                    else top_dirs)
                 [] ps)))
       (\<lambda>top_dirs. Inr (take 20 (sort_key (\<lambda>kv. - int (snd kv)) top_dirs)))"

subsection \<open>The aggregate report\<close>

text \<open>An entry of the issue and recommendation lists; the key \<^verbatim>\<open>file\<close> may be absent.\<close>

record finding =
  priority :: string
  category :: string
  file_key :: "string option" \<comment> \<open>the key \<^verbatim>\<open>file\<close>\<close>
  message :: string

record meta =
  tool :: string
  generated_at :: string
  meta_root :: string \<comment> \<open>the key \<^verbatim>\<open>root\<close>\<close>

record repo_scale =
  file_count :: nat
  file_count_source :: string
  large_repo_threshold :: nat
  is_large_repo :: bool
  is_git_repo_key :: bool \<comment> \<open>the key \<^verbatim>\<open>is_git_repo\<close>\<close>
  top_level_dirs_by_file_count :: "(string \<times> nat) list"

record claude_memory =
  discovered_files :: "MemoryFileReport list"
  missing_standard_locations :: "MemoryFileReport list"

record mcp_configuration =
  mcp_discovered_files :: "MCPConfigReport list"
  total_servers :: nat

record skills =
  skills_discovered :: "SkillReport list"
  skills_total_count :: nat

record subagents =
  subagents_discovered :: "SubagentReport list"
  subagents_total_count :: nat

record report =
  meta :: meta
  repo_scale :: repo_scale
  claude_memory :: claude_memory
  claude_settings :: "SettingsFileReport list" \<comment> \<open>its only key, \<^verbatim>\<open>discovered_files\<close>\<close>
  mcp_configuration :: mcp_configuration
  skills :: skills
  subagents :: subagents
  issues :: "finding list"
  recommendations :: "finding list"

text \<open>The sort key \<^verbatim>\<open>lambda x: (x["priority"], x["category"])\<close>.\<close>

definition finding_key :: "finding \<Rightarrow> string \<times> string" where
  "finding_key x = (priority x, category x)"

text \<open>\<^verbatim>\<open>sorted(xs, key=...)\<close>: a stable sort.\<close>

definition sorted_by_key :: "finding list \<Rightarrow> finding list" where
  "sorted_by_key xs = sort_key finding_key xs"

definition no_memory_issue :: finding where
  "no_memory_issue =
     \<lparr>priority = ''P0'', category = ''memory'', file_key = None,
      message = ''No CLAUDE.md found; create one to provide project context to Claude Code''\<rparr>"

text \<open>The issues of one memory report, and the issues the loops of \<^verbatim>\<open>audit\<close> collect.\<close>

definition memory_report_issues :: "MemoryFileReport \<Rightarrow> finding list" where
  "memory_report_issues r =
     map (\<lambda>issue. \<lparr>priority = (if str_contains ''missing'' (lower issue) then ''P1'' else ''P2''),
                    category = ''memory'', file_key = Some (mem_path r), message = issue\<rparr>)
       (mem_issues r)"

definition memory_report_recommendations :: "MemoryFileReport \<Rightarrow> finding list" where
  "memory_report_recommendations r =
     map (\<lambda>rec. \<lparr>priority = ''P2'', category = ''memory'', file_key = Some (mem_path r), message = rec\<rparr>)
       (mem_recommendations r)"

definition all_issues ::
  "MemoryFileReport list \<Rightarrow> SettingsFileReport list \<Rightarrow> MCPConfigReport list \<Rightarrow> SkillReport list
     \<Rightarrow> finding list" where
  "all_issues memory_reports settings_reports mcp_reports skill_reports =
     (if filter mem_exists memory_reports = [] then [no_memory_issue] else []) @
     concat (map memory_report_issues memory_reports) @
     concat (map (\<lambda>r. map (\<lambda>issue. \<lparr>priority = ''P1'', category = ''settings'',
                                      file_key = Some (set_path r), message = issue\<rparr>) (set_issues r))
               settings_reports) @
     concat (map (\<lambda>r. map (\<lambda>issue. \<lparr>priority = ''P2'', category = ''mcp'',
                                      file_key = Some (mcp_path r), message = issue\<rparr>) (mcp_issues r))
               mcp_reports) @
     concat (map (\<lambda>r. map (\<lambda>issue. \<lparr>priority = ''P2'', category = ''skills'',
                                      file_key = Some (skill_path r), message = issue\<rparr>) (skill_issues r))
               skill_reports)"

definition all_recommendations :: "MemoryFileReport list \<Rightarrow> bool \<Rightarrow> nat \<Rightarrow> finding list" where
  "all_recommendations memory_reports large_repo n =
     concat (map memory_report_recommendations memory_reports) @
     (if large_repo
      then [\<lparr>priority = ''P1'', category = ''scale'', file_key = None,
             message = ''Repo has '' @ str_nat n @
               '' files (>3000 threshold). Consider a context engine or retrieval layer for reliable agent context.''\<rparr>]
      else [])"

text \<open>
  The last part of \<^verbatim>\<open>audit\<close>: the scale figures, the two sorted lists and the
  dictionary that is returned, from the tracked files, the reports (already
  restricted to the wanted scopes) and the directory statistics.
\<close>

definition report_of ::
  "env \<Rightarrow> pypath \<Rightarrow> string list option \<Rightarrow> MemoryFileReport list \<Rightarrow> SettingsFileReport list
     \<Rightarrow> MCPConfigReport list \<Rightarrow> SkillReport list \<Rightarrow> SubagentReport list
     \<Rightarrow> (string \<times> nat) list \<Rightarrow> report" where
  "report_of e root tracked memory_reports settings_reports mcp_reports skill_reports
     subagent_reports dir_stats =
     (let file_count = (case tracked of Some t \<Rightarrow> length t | None \<Rightarrow> walk_file_count e root);
          file_count_source = (case tracked of Some t \<Rightarrow> ''git ls-files''
            | None \<Rightarrow> ''filesystem walk (excludes node_modules/.git/dist/build/.venv/__pycache__)'');
          large_repo = (file_count > 3000)
      in \<lparr>meta = \<lparr>tool = ''optimizing-claude-code.audit_repo'',
                   generated_at = now_iso e,
                   meta_root = str_path root\<rparr>,
           repo_scale = \<lparr>file_count = file_count,
                         file_count_source = file_count_source,
                         large_repo_threshold = 3000,
                         is_large_repo = large_repo,
                         is_git_repo_key = is_git_repo e root,
                         top_level_dirs_by_file_count = dir_stats\<rparr>,
           claude_memory = \<lparr>discovered_files = filter mem_exists memory_reports,
                            missing_standard_locations =
                              filter (\<lambda>r. \<not> mem_exists r \<and> mem_scope r \<in> set [''project'', ''local''])
                                memory_reports\<rparr>,
           claude_settings = filter set_exists settings_reports,
           mcp_configuration = \<lparr>mcp_discovered_files = filter mcp_exists mcp_reports,
                                total_servers = sum_list (map mcp_server_count (filter mcp_exists mcp_reports))\<rparr>,
           skills = \<lparr>skills_discovered = skill_reports, skills_total_count = length skill_reports\<rparr>,
           subagents = \<lparr>subagents_discovered = subagent_reports,
                        subagents_total_count = length subagent_reports\<rparr>,
           issues = sorted_by_key
             (all_issues memory_reports settings_reports mcp_reports skill_reports),
           recommendations = sorted_by_key
             (all_recommendations memory_reports large_repo file_count)\<rparr>)"

text \<open>
  \<^verbatim>\<open>audit\<close>: the tracked files, then discovery and analysis category by category,
  each list restricted to the wanted scopes, then the directory statistics. The file
  count of the fallback walk raises nothing, so it is computed in \<open>report_of\<close>.
\<close>

definition audit :: "env \<Rightarrow> pypath \<Rightarrow> bool \<Rightarrow> error + report" where
  "audit e root0 include_user_scope =
     (let root = resolve e root0 in
      and_then (if is_git_repo e root then git_tracked_files e root else Inr None)
        (\<lambda>tracked.
      and_then (map_raising (\<lambda>(p, s). analyze_memory_file e p s root tracked)
                  (discover_memory_files e root))
        (\<lambda>memory_reports.
      and_then (map_raising (\<lambda>(p, s). analyze_settings_file e p s) (discover_settings_files e root))
        (\<lambda>settings_reports.
      and_then (map_raising (\<lambda>(p, s). analyze_mcp_config e p s) (discover_mcp_configs e root))
        (\<lambda>mcp_reports.
      and_then (discover_skills e root)
        (\<lambda>skill_dirs.
      and_then (get_directory_stats e root tracked)
        (\<lambda>dir_stats.
      Inr (report_of e root tracked memory_reports
             (if \<not> include_user_scope
              then filter (\<lambda>r. set_scope r \<noteq> ''user'') settings_reports else settings_reports)
             (if \<not> include_user_scope
              then filter (\<lambda>r. mcp_scope r \<noteq> ''user'') mcp_reports else mcp_reports)
             (if \<not> include_user_scope
              then filter (\<lambda>r. skill_scope r \<noteq> ''user'')
                     (map (\<lambda>(p, s). analyze_skill e p s root) skill_dirs)
              else map (\<lambda>(p, s). analyze_skill e p s root) skill_dirs)
             (if \<not> include_user_scope
              then filter (\<lambda>r. sub_scope r \<noteq> ''user'')
                     (map (\<lambda>(p, s). analyze_subagent e p s root) (discover_subagents e root))
              else map (\<lambda>(p, s). analyze_subagent e p s root) (discover_subagents e root))
             dir_stats))))))))"

subsection \<open>The command line\<close>




subsection \<open>Example environments\<close>

text \<open>
  A machine whose only directory is an empty \<^verbatim>\<open>/repo\<close>, without the version-control
  tool; and one where \<^verbatim>\<open>/repo\<close> is a repository with two tracked files.
\<close>

definition env_empty :: env where
  "env_empty = \<lparr>
     tree = Dir [(''repo'', Dir [])],
     cwd = [''repo''],
     home_var = ''/home/u'',
     getpwnam = (\<lambda>n. None),
     dir_size = (\<lambda>p. 4096),
     git_ls_files = (\<lambda>p. Not_started),
     git_log = (\<lambda>p r. Not_started),
     json_loads = (\<lambda>s. None),
     py_str = (\<lambda>v. []),
     now_iso = ''2026-01-01T00:00:00+00:00''\<rparr>"

definition env_git :: env where
  "env_git = env_empty\<lparr>
     tree := Dir [(''repo'', Dir [(''.git'', Dir [])])],
     git_ls_files := (\<lambda>p. Completed 0 (''CLAUDE.md'' @ [CHR 0x0A] @ ''docs/x.md'' @ [CHR 0x0A]) []),
     git_log := (\<lambda>p r. Completed 0 ''2024-01-01T00:00:00+00:00'' [])\<rparr>"

text \<open>
  A repository with empty memory documents (one of them below \<^verbatim>\<open>node_modules\<close>),
  an empty settings file and connector configuration, a skill with an empty
  \<^verbatim>\<open>SKILL.md\<close> and a subagent.
\<close>

definition env_demo :: env where
  "env_demo = env_empty\<lparr>
     tree := Dir [(''home'', Dir [(''u'', Dir [])]),
                  (''repo'', Dir [(''.git'', Dir []),
                                 (''CLAUDE.md'', File []),
                                 (''CLAUDE.local.md'', File []),
                                 (''node_modules'', Dir [(''pkg'', Dir [(''CLAUDE.md'', File [])])]),
                                 (''.mcp.json'', File []),
                                 (''.claude'', Dir [(''settings.json'', File []),
                                                   (''skills'', Dir [(''s1'', Dir [(''SKILL.md'', File [])])]),
                                                   (''agents'', Dir [(''a.md'', File [])])])])],
     git_ls_files := (\<lambda>p. Completed 0 (''CLAUDE.md'' @ [CHR 0x0A] @ ''.claude/settings.json'' @ [CHR 0x0A]) []),
     git_log := (\<lambda>p r. Completed 0 ''2024-01-01T00:00:00+00:00'' [])\<rparr>"

text \<open>The report of the audit of that repository, run in \<^verbatim>\<open>/repo\<close> for the root \<^verbatim>\<open>.\<close>.\<close>

definition demo_report :: report where
  "demo_report = projr (audit env_demo (Path ''.'') False)"

text \<open>A repository whose memory document names one existing and one missing file.\<close>

definition env_mem :: env where
  "env_mem = env_empty\<lparr>
     tree := Dir [(''repo'', Dir [(''CLAUDE.md'', File (''@docs/a.md'' @ [CHR 0x0A] @ ''@missing.md'')),
                                 (''docs'', Dir [(''a.md'', File ''x'')])])]\<rparr>"

definition mem_report :: MemoryFileReport where
  "mem_report = projr (analyze_memory_file env_mem (PyPath True [''repo'', ''CLAUDE.md'']) ''project''
     (PyPath True [''repo'']) None)"

definition absent_report :: MemoryFileReport where
  "absent_report = projr (analyze_memory_file env_mem (PyPath True [''repo'', ''.claude'', ''CLAUDE.md''])
     ''project'' (PyPath True [''repo'']) None)"


section \<open>Properties\<close>

subsection \<open>Helper facts\<close>

text \<open>A file of at most a thousand bytes is read whole; this form evaluates quickly.\<close>

lemma safe_read_text_short [code]:
  "safe_read_text e p =
     (case stat e p of Some (File b) \<Rightarrow> if drop 1000 b = [] then b else take 2000000 b | _ \<Rightarrow> [])"
  by (auto simp: safe_read_text_def split: option.splits node.splits)

lemma and_then_Inr: "(and_then m f = Inr r) = (\<exists>x. m = Inr x \<and> f x = Inr r)"
  by (cases m) (simp_all add: and_then_def)

lemma audit_returns:
  assumes "audit e root0 u = Inr rep"
  shows "\<exists>tracked mrs srs crs krs ars ds.
     (if is_git_repo e (resolve e root0) then git_tracked_files e (resolve e root0) else Inr None) = Inr tracked \<and>
     map_raising (\<lambda>(p, s). analyze_memory_file e p s (resolve e root0) tracked)
        (discover_memory_files e (resolve e root0)) = Inr mrs \<and>
     rep = report_of e (resolve e root0) tracked mrs srs crs krs ars ds"
  using assms unfolding audit_def Let_def and_then_Inr sum.inject by blast

lemma report_of_fields:
  "issues (report_of e root tracked mrs srs crs krs ars ds) = sorted_by_key (all_issues mrs srs crs krs)"
  "recommendations (report_of e root tracked mrs srs crs krs ars ds) =
     sorted_by_key (all_recommendations mrs
       ((case tracked of Some t \<Rightarrow> length t | None \<Rightarrow> walk_file_count e root) > 3000)
       (case tracked of Some t \<Rightarrow> length t | None \<Rightarrow> walk_file_count e root))"
  "file_count (repo_scale (report_of e root tracked mrs srs crs krs ars ds)) =
     (case tracked of Some t \<Rightarrow> length t | None \<Rightarrow> walk_file_count e root)"
  "is_large_repo (repo_scale (report_of e root tracked mrs srs crs krs ars ds)) =
     ((case tracked of Some t \<Rightarrow> length t | None \<Rightarrow> walk_file_count e root) > 3000)"
  "large_repo_threshold (repo_scale (report_of e root tracked mrs srs crs krs ars ds)) = 3000"
  by (simp_all add: report_of_def Let_def)

lemma sorted_by_key_sorted: "sorted (map finding_key (sorted_by_key xs))"
  by (simp add: sorted_by_key_def)

lemma sorted_by_key_mset: "mset (sorted_by_key xs) = mset xs"
  by (simp add: sorted_by_key_def)

lemma sorted_by_key_set: "set (sorted_by_key xs) = set xs"
  by (simp add: sorted_by_key_def)

lemma key_order:
  "(''P0'' :: string) < ''P1''" "(''P1'' :: string) < ''P2''"
  "\<not> (''P2'', ''settings'') \<le> ((''P0'', ''memory'') :: string \<times> string)"
  "\<not> (''P2'', ''settings'') \<le> ((''P1'', ''mcp'') :: string \<times> string)"
  "((''P0'', ''memory'') :: string \<times> string) \<le> (''P1'', ''mcp'')"
  by code_simp+

text \<open>The audit of the example repository returns; the keys of its sorted lists.\<close>

lemma audit_demo:
  "audit env_demo (Path ''.'') False = Inr demo_report"
  "map finding_key (issues demo_report) =
     [(''P1'', ''settings''), (''P2'', ''mcp''), (''P2'', ''memory''), (''P2'', ''memory''),
      (''P2'', ''memory''), (''P2'', ''memory''), (''P2'', ''skills'')]"
  "file_count (repo_scale demo_report) = 2"
proof -
  have c: "case audit env_demo (Path ''.'') False of Inl x \<Rightarrow> False
        | Inr rep \<Rightarrow>
            map finding_key (issues rep) =
              [(''P1'', ''settings''), (''P2'', ''mcp''), (''P2'', ''memory''), (''P2'', ''memory''),
               (''P2'', ''memory''), (''P2'', ''memory''), (''P2'', ''skills'')] \<and>
            file_count (repo_scale rep) = 2"
    by code_simp
  show "audit env_demo (Path ''.'') False = Inr demo_report"
    using c unfolding demo_report_def by (cases "audit env_demo (Path ''.'') False") simp_all
  show "map finding_key (issues demo_report) =
     [(''P1'', ''settings''), (''P2'', ''mcp''), (''P2'', ''memory''), (''P2'', ''memory''),
      (''P2'', ''memory''), (''P2'', ''memory''), (''P2'', ''skills'')]"
    using c unfolding demo_report_def by (cases "audit env_demo (Path ''.'') False") simp_all
  show "file_count (repo_scale demo_report) = 2"
    using c unfolding demo_report_def by (cases "audit env_demo (Path ''.'') False") simp_all
qed

subsection \<open>Version-control bridge\<close>

lemma splitlines_from_no_break:
  "\<forall>c \<in> set w. \<not> is_linebreak c \<Longrightarrow> l \<in> set (splitlines_from cr w s) \<Longrightarrow> c \<in> set l \<Longrightarrow> \<not> is_linebreak c"
proof (induction cr w s rule: splitlines_from.induct)
  case (1 cr w)
  then show ?case by (auto split: if_splits)
next
  case (2 cr w c cs)
  then show ?case by (auto split: if_splits simp: is_linebreak_def)
qed

text \<open>
  Claim C2, as amended. The tracked-files query returns the non-blank lines of the
  tool's stripped output when the tool exits with 0 (none of them empty or holding a
  line feed), and \<open>None\<close> when it exits with anything else. When the tool cannot be
  started, the \<^verbatim>\<open>FileNotFoundError\<close> of \<^verbatim>\<open>subprocess.run\<close> is not caught and leaves
  the query.
\<close>

theorem git_tracked_files_cases:
  "(git_ls_files e root = Not_started \<longrightarrow> git_tracked_files e root = Inl FileNotFoundError) \<and>
   (\<forall>rc out err. git_ls_files e root = Completed rc out err \<and> rc \<noteq> 0
      \<longrightarrow> git_tracked_files e root = Inr None) \<and>
   (\<forall>out err. git_ls_files e root = Completed 0 out err
      \<longrightarrow> (\<exists>ls. git_tracked_files e root = Inr (Some ls) \<and>
            ls = filter (\<lambda>line. strip line \<noteq> []) (splitlines (strip out)) \<and>
            (\<forall>l \<in> set ls. l \<noteq> [] \<and> CHR 0x0A \<notin> set l)))"
proof -
  have nb: "l \<noteq> [] \<and> CHR 0x0A \<notin> set l"
    if "l \<in> set (filter (\<lambda>line. strip line \<noteq> []) (splitlines s))" for l s
  proof -
    from that have m: "l \<in> set (splitlines_from False [] s)" and ne: "strip l \<noteq> []"
      by (auto simp: splitlines_def)
    have "\<not> is_linebreak c" if "c \<in> set l" for c
      using splitlines_from_no_break[OF _ m that] by simp
    then have "CHR 0x0A \<notin> set l" by (auto simp: is_linebreak_def)
    moreover from ne have "l \<noteq> []" by (auto simp: strip_def)
    ultimately show ?thesis by simp
  qed
  show ?thesis
    using nb by (auto simp: git_tracked_files_def run_def)
qed

theorem git_tracked_files_witness:
  "git_ls_files env_git (PyPath True [''repo'']) =
     Completed 0 (''CLAUDE.md'' @ [CHR 0x0A] @ ''docs/x.md'' @ [CHR 0x0A]) [] \<and>
   git_tracked_files env_git (PyPath True [''repo'']) = Inr (Some [''CLAUDE.md'', ''docs/x.md'']) \<and>
   git_ls_files (env_git\<lparr>git_ls_files := (\<lambda>p. Completed 128 [] ''fatal: not a git repository'')\<rparr>)
       (PyPath True [''repo'']) = Completed 128 [] ''fatal: not a git repository'' \<and>
   git_tracked_files (env_git\<lparr>git_ls_files := (\<lambda>p. Completed 128 [] ''fatal: not a git repository'')\<rparr>)
       (PyPath True [''repo'']) = Inr None"
proof -
  have a: "git_ls_files env_git (PyPath True [''repo'']) =
     Completed 0 (''CLAUDE.md'' @ [CHR 0x0A] @ ''docs/x.md'' @ [CHR 0x0A]) []"
    by (simp add: env_git_def)
  have b: "filter (\<lambda>line. strip line \<noteq> [])
      (splitlines (strip (''CLAUDE.md'' @ [CHR 0x0A] @ ''docs/x.md'' @ [CHR 0x0A]))) =
      [''CLAUDE.md'', ''docs/x.md'']"
    by code_simp
  have c: "git_ls_files (env_git\<lparr>git_ls_files := (\<lambda>p. Completed 128 [] ''fatal: not a git repository'')\<rparr>)
       (PyPath True [''repo'']) = Completed 128 [] ''fatal: not a git repository''"
    by simp
  show ?thesis
    using git_tracked_files_cases[of env_git "PyPath True [''repo'']"]
      git_tracked_files_cases[of "env_git\<lparr>git_ls_files := (\<lambda>p. Completed 128 [] ''fatal: not a git repository'')\<rparr>"
        "PyPath True [''repo'']"] a b c
    by auto
qed

text \<open>
  Claim C2 as stated fails: without the tool the query raises instead of returning
  \<open>None\<close>.
\<close>

theorem git_tracked_files_raises:
  "git_ls_files env_empty (PyPath True [''repo'']) = Not_started \<and>
   git_tracked_files env_empty (PyPath True [''repo'']) = Inl FileNotFoundError \<and>
   git_tracked_files env_empty (PyPath True [''repo'']) \<noteq> Inr None"
  by (simp add: env_empty_def git_tracked_files_def run_def)

subsection \<open>The sorted lists of the report\<close>

text \<open>
  Claim C5. In a report that \<^verbatim>\<open>audit\<close> returns, the issues and the recommendations
  are each sorted ascending by the pair (priority, category), strings being compared
  character by character, so that \<^verbatim>\<open>"P0" < "P1" < "P2"\<close>; the sort only permutes the
  list it is given; and three issues with the priorities P2, P0, P1 and the
  categories settings, memory, mcp come out in the order P0/memory, P1/mcp,
  P2/settings.
\<close>

theorem report_lists_sorted:
  "(\<forall>rep. audit e root0 u = Inr rep \<longrightarrow>
      sorted (map finding_key (issues rep)) \<and> sorted (map finding_key (recommendations rep))) \<and>
   mset (sorted_by_key xs) = mset xs \<and>
   (''P0'' :: string) < ''P1'' \<and> (''P1'' :: string) < ''P2'' \<and>
   sorted_by_key
     [\<lparr>priority = ''P2'', category = ''settings'', file_key = f1, message = m1\<rparr>,
      \<lparr>priority = ''P0'', category = ''memory'', file_key = f2, message = m2\<rparr>,
      \<lparr>priority = ''P1'', category = ''mcp'', file_key = f3, message = m3\<rparr>] =
     [\<lparr>priority = ''P0'', category = ''memory'', file_key = f2, message = m2\<rparr>,
      \<lparr>priority = ''P1'', category = ''mcp'', file_key = f3, message = m3\<rparr>,
      \<lparr>priority = ''P2'', category = ''settings'', file_key = f1, message = m1\<rparr>]"
proof -
  have "sorted (map finding_key (issues rep)) \<and> sorted (map finding_key (recommendations rep))"
    if "audit e root0 u = Inr rep" for rep
    using audit_returns[OF that] by (auto simp: report_of_fields sorted_by_key_sorted)
  moreover have "sorted_by_key
     [\<lparr>priority = ''P2'', category = ''settings'', file_key = f1, message = m1\<rparr>,
      \<lparr>priority = ''P0'', category = ''memory'', file_key = f2, message = m2\<rparr>,
      \<lparr>priority = ''P1'', category = ''mcp'', file_key = f3, message = m3\<rparr>] =
     [\<lparr>priority = ''P0'', category = ''memory'', file_key = f2, message = m2\<rparr>,
      \<lparr>priority = ''P1'', category = ''mcp'', file_key = f3, message = m3\<rparr>,
      \<lparr>priority = ''P2'', category = ''settings'', file_key = f1, message = m1\<rparr>]"
    using key_order by (simp add: sorted_by_key_def finding_key_def)
  ultimately show ?thesis
    using key_order(1,2) sorted_by_key_mset by blast
qed

theorem report_lists_sorted_witness:
  "audit env_demo (Path ''.'') False = Inr demo_report \<and>
   map finding_key (issues demo_report) =
     [(''P1'', ''settings''), (''P2'', ''mcp''), (''P2'', ''memory''), (''P2'', ''memory''),
      (''P2'', ''memory''), (''P2'', ''memory''), (''P2'', ''skills'')] \<and>
   sorted (map finding_key (issues demo_report)) \<and>
   sorted (map finding_key (recommendations demo_report))"
proof -
  note s = conjunct1[OF report_lists_sorted[of env_demo "Path ''.''" False], rule_format,
      OF audit_demo(1)]
  show ?thesis
    by (intro conjI audit_demo(1) audit_demo(2) conjunct1[OF s] conjunct2[OF s])
qed

subsection \<open>The large-repository flag\<close>

text \<open>
  Claim C7. In a report that \<^verbatim>\<open>audit\<close> returns, \<^verbatim>\<open>is_large_repo\<close> is
  \<^verbatim>\<open>file_count > 3000\<close>, with the threshold 3000 reported; when the flag is set, the
  recommendations hold one of priority P1 and category scale; and when the root is a
  repository whose tracked-files query returns a list, the file count is the length
  of that list, so that 3000 tracked files give \<^verbatim>\<open>false\<close> and 3001 give \<^verbatim>\<open>true\<close>.
\<close>

theorem large_repo_flag:
  assumes "audit e root0 u = Inr rep"
  shows "is_large_repo (repo_scale rep) = (file_count (repo_scale rep) > 3000) \<and>
         large_repo_threshold (repo_scale rep) = 3000 \<and>
         (is_large_repo (repo_scale rep) \<longrightarrow>
            (\<exists>r \<in> set (recommendations rep). priority r = ''P1'' \<and> category r = ''scale'')) \<and>
         (\<forall>t. is_git_repo e (resolve e root0) \<and> git_tracked_files e (resolve e root0) = Inr (Some t)
            \<longrightarrow> file_count (repo_scale rep) = length t \<and>
                (length t = 3000 \<longrightarrow> \<not> is_large_repo (repo_scale rep)) \<and>
                (length t = 3001 \<longrightarrow> is_large_repo (repo_scale rep)))"
proof -
  from audit_returns[OF assms] obtain tracked mrs srs crs krs ars ds where
    t: "(if is_git_repo e (resolve e root0) then git_tracked_files e (resolve e root0) else Inr None)
          = Inr tracked"
    and rep: "rep = report_of e (resolve e root0) tracked mrs srs crs krs ars ds"
    by blast
  have a: "is_large_repo (repo_scale rep) = (file_count (repo_scale rep) > 3000)"
    by (simp add: rep report_of_fields)
  have b: "large_repo_threshold (repo_scale rep) = 3000"
    by (simp add: rep report_of_fields)
  have c: "\<exists>r \<in> set (recommendations rep). priority r = ''P1'' \<and> category r = ''scale''"
    if "is_large_repo (repo_scale rep)"
    using that by (simp add: rep report_of_fields sorted_by_key_set all_recommendations_def)
  have d: "file_count (repo_scale rep) = length t"
    if "is_git_repo e (resolve e root0)" "git_tracked_files e (resolve e root0) = Inr (Some t)" for t
    using that t by (auto simp: rep report_of_fields)
  show ?thesis
    using a b c d by auto
qed

theorem large_repo_flag_witness:
  "audit env_demo (Path ''.'') False = Inr demo_report \<and>
   file_count (repo_scale demo_report) = 2 \<and>
   is_large_repo (repo_scale demo_report) = (file_count (repo_scale demo_report) > 3000) \<and>
   \<not> is_large_repo (repo_scale demo_report)"
proof -
  note f = conjunct1[OF large_repo_flag[OF audit_demo(1)]]
  have "\<not> is_large_repo (repo_scale demo_report)"
    using f audit_demo(3) by simp
  then show ?thesis
    by (intro conjI audit_demo(1) audit_demo(3) f)
qed

subsection \<open>Priorities by category\<close>

lemma no_memory_issue_not_reported: "no_memory_issue \<notin> set (memory_report_issues r)"
  by (auto simp: memory_report_issues_def no_memory_issue_def)

lemma in_optional: "x \<in> set (if c then [a] else []) \<longleftrightarrow> c \<and> x = a"
  by auto

lemma all_issues_cases:
  assumes "i \<in> set (all_issues mrs srs crs krs)"
  shows "i = no_memory_issue \<or> (\<exists>r. i \<in> set (memory_report_issues r)) \<or>
         (priority i = ''P1'' \<and> category i = ''settings'') \<or>
         (priority i = ''P2'' \<and> category i = ''mcp'') \<or>
         (priority i = ''P2'' \<and> category i = ''skills'')"
proof -
  from assms have
    "i \<in> set (if filter mem_exists mrs = [] then [no_memory_issue] else []) \<or>
     i \<in> set (concat (map memory_report_issues mrs)) \<or>
     i \<in> set (concat (map (\<lambda>r. map (\<lambda>issue. \<lparr>priority = ''P1'', category = ''settings'',
                                      file_key = Some (set_path r), message = issue\<rparr>) (set_issues r)) srs)) \<or>
     i \<in> set (concat (map (\<lambda>r. map (\<lambda>issue. \<lparr>priority = ''P2'', category = ''mcp'',
                                      file_key = Some (mcp_path r), message = issue\<rparr>) (mcp_issues r)) crs)) \<or>
     i \<in> set (concat (map (\<lambda>r. map (\<lambda>issue. \<lparr>priority = ''P2'', category = ''skills'',
                                      file_key = Some (skill_path r), message = issue\<rparr>) (skill_issues r)) krs))"
    unfolding all_issues_def set_append Un_iff by blast
  then show ?thesis
  proof (elim disjE)
    assume "i \<in> set (if filter mem_exists mrs = [] then [no_memory_issue] else [])"
    then show ?thesis unfolding in_optional by blast
  next
    assume "i \<in> set (concat (map memory_report_issues mrs))"
    then have "\<exists>r. i \<in> set (memory_report_issues r)" by auto
    then show ?thesis by blast
  next
    assume "i \<in> set (concat (map (\<lambda>r. map (\<lambda>issue. \<lparr>priority = ''P1'', category = ''settings'',
                                      file_key = Some (set_path r), message = issue\<rparr>) (set_issues r)) srs))"
    then have "priority i = ''P1'' \<and> category i = ''settings''" by auto
    then show ?thesis by blast
  next
    assume "i \<in> set (concat (map (\<lambda>r. map (\<lambda>issue. \<lparr>priority = ''P2'', category = ''mcp'',
                                      file_key = Some (mcp_path r), message = issue\<rparr>) (mcp_issues r)) crs))"
    then have "priority i = ''P2'' \<and> category i = ''mcp''" by auto
    then show ?thesis by blast
  next
    assume "i \<in> set (concat (map (\<lambda>r. map (\<lambda>issue. \<lparr>priority = ''P2'', category = ''skills'',
                                      file_key = Some (skill_path r), message = issue\<rparr>) (skill_issues r)) krs))"
    then have "priority i = ''P2'' \<and> category i = ''skills''" by auto
    then show ?thesis by blast
  qed
qed

lemma count_no_memory_issue:
  "count (mset (all_issues mrs srs crs krs)) no_memory_issue \<le> 1"
proof -
  have m: "count (mset (concat (map memory_report_issues mrs))) no_memory_issue = 0"
    using no_memory_issue_not_reported by (auto simp: count_eq_zero_iff)
  have "no_memory_issue \<notin> set (concat (map (\<lambda>r. map (\<lambda>issue. \<lparr>priority = p, category = c,
            file_key = Some (g r), message = issue\<rparr>) (h r)) xs))" for p c g h and xs :: "'a list"
    by (auto simp: no_memory_issue_def)
  then have o: "count (mset (concat (map (\<lambda>r. map (\<lambda>issue. \<lparr>priority = p, category = c,
            file_key = Some (g r), message = issue\<rparr>) (h r)) xs))) no_memory_issue = 0"
    for p c g h and xs :: "'a list"
    by (simp add: count_eq_zero_iff)
  show ?thesis
    unfolding all_issues_def by (simp add: m o)
qed

lemma all_issues_priority:
  assumes "i \<in> set (all_issues mrs srs crs krs)"
  shows "(category i = ''memory'' \<longrightarrow>
               (i = no_memory_issue \<and> priority i = ''P0'') \<or>
               (i \<noteq> no_memory_issue \<and>
                priority i = (if str_contains ''missing'' (lower (message i)) then ''P1'' else ''P2''))) \<and>
         (category i = ''settings'' \<longrightarrow> priority i = ''P1'') \<and>
         (category i = ''mcp'' \<or> category i = ''skills'' \<longrightarrow> priority i = ''P2'')"
proof -
  from all_issues_cases[OF assms] consider
      (none) "i = no_memory_issue"
    | (memory) r where "i \<in> set (memory_report_issues r)"
    | (settings) "priority i = ''P1''" "category i = ''settings''"
    | (mcp) "priority i = ''P2''" "category i = ''mcp''"
    | (skills) "priority i = ''P2''" "category i = ''skills''"
    by blast
  then show ?thesis
  proof cases
    case none
    have "priority no_memory_issue = ''P0''" "category no_memory_issue = ''memory''"
      by (simp_all add: no_memory_issue_def)
    with none show ?thesis by simp
  next
    case memory
    then obtain issue where
      "i = \<lparr>priority = (if str_contains ''missing'' (lower issue) then ''P1'' else ''P2''),
            category = ''memory'', file_key = Some (mem_path r), message = issue\<rparr>"
      by (auto simp: memory_report_issues_def)
    moreover from memory have "i \<noteq> no_memory_issue"
      using no_memory_issue_not_reported by blast
    ultimately show ?thesis by simp
  next
    case settings
    then show ?thesis by simp
  next
    case mcp
    then show ?thesis by simp
  next
    case skills
    then show ?thesis by simp
  qed
qed

lemma all_recommendations_priority:
  assumes "r \<in> set (all_recommendations mrs large n)" "category r = ''memory''"
  shows "priority r = ''P2''"
proof -
  from assms(1) have
    "r \<in> set (concat (map memory_report_recommendations mrs)) \<or> category r = ''scale''"
    unfolding all_recommendations_def set_append Un_iff in_optional by auto
  then show ?thesis
  proof
    assume "r \<in> set (concat (map memory_report_recommendations mrs))"
    then show ?thesis by (auto simp: memory_report_recommendations_def)
  next
    assume "category r = ''scale''"
    with assms(2) show ?thesis by simp
  qed
qed

text \<open>
  Claim C10. In the issues of a report that \<^verbatim>\<open>audit\<close> returns, an issue of category
  memory is either the no-memory-document issue, of priority P0 and present at most
  once, or has priority P1 when its message contains \<^verbatim>\<open>missing\<close> in any letter
  case and P2 otherwise; an issue of category settings has priority P1; an issue of
  category mcp or skills has priority P2; and a recommendation of category memory
  has priority P2.
\<close>

theorem issue_priorities:
  assumes "audit e root0 u = Inr rep"
  shows "(\<forall>i \<in> set (issues rep).
            (category i = ''memory'' \<longrightarrow>
               (i = no_memory_issue \<and> priority i = ''P0'') \<or>
               (i \<noteq> no_memory_issue \<and>
                priority i = (if str_contains ''missing'' (lower (message i)) then ''P1'' else ''P2''))) \<and>
            (category i = ''settings'' \<longrightarrow> priority i = ''P1'') \<and>
            (category i = ''mcp'' \<or> category i = ''skills'' \<longrightarrow> priority i = ''P2'')) \<and>
         (\<forall>r \<in> set (recommendations rep). category r = ''memory'' \<longrightarrow> priority r = ''P2'') \<and>
         count (mset (issues rep)) no_memory_issue \<le> 1"
proof -
  from audit_returns[OF assms] obtain tracked mrs srs crs krs ars ds where
    rep: "rep = report_of e (resolve e root0) tracked mrs srs crs krs ars ds"
    by blast
  have i: "set (issues rep) = set (all_issues mrs srs crs krs)"
    by (simp add: rep report_of_fields sorted_by_key_set)
  have r: "set (recommendations rep) = set (all_recommendations mrs
       ((case tracked of Some t \<Rightarrow> length t | None \<Rightarrow> walk_file_count e (resolve e root0)) > 3000)
       (case tracked of Some t \<Rightarrow> length t | None \<Rightarrow> walk_file_count e (resolve e root0)))"
    by (simp add: rep report_of_fields sorted_by_key_set)
  have c: "count (mset (issues rep)) no_memory_issue \<le> 1"
    using count_no_memory_issue[of mrs srs crs krs]
    by (simp add: rep report_of_fields sorted_by_key_mset)
  show ?thesis
  proof (intro conjI ballI impI)
    show "count (mset (issues rep)) no_memory_issue \<le> 1" by (rule c)
  next
    fix x assume "x \<in> set (recommendations rep)" "category x = ''memory''"
    then show "priority x = ''P2''"
      unfolding r by (rule all_recommendations_priority)
  next
    fix x assume x: "x \<in> set (issues rep)"
    note p = all_issues_priority[OF x[unfolded i]]
    { assume m: "category x = ''memory''"
      show "(x = no_memory_issue \<and> priority x = ''P0'') \<or>
               (x \<noteq> no_memory_issue \<and>
                priority x = (if str_contains ''missing'' (lower (message x)) then ''P1'' else ''P2''))"
        by (rule mp[OF conjunct1[OF p] m]) }
    { assume m: "category x = ''settings''"
      show "priority x = ''P1''" by (rule mp[OF conjunct1[OF conjunct2[OF p]] m]) }
    { assume m: "category x = ''mcp'' \<or> category x = ''skills''"
      show "priority x = ''P2''" by (rule mp[OF conjunct2[OF conjunct2[OF p]] m]) }
  qed
qed

theorem issue_priorities_witness:
  "audit env_demo (Path ''.'') False = Inr demo_report \<and>
   map finding_key (issues demo_report) =
     [(''P1'', ''settings''), (''P2'', ''mcp''), (''P2'', ''memory''), (''P2'', ''memory''),
      (''P2'', ''memory''), (''P2'', ''memory''), (''P2'', ''skills'')] \<and>
   count (mset (issues demo_report)) no_memory_issue \<le> 1"
  by (intro conjI audit_demo(1) audit_demo(2)
        conjunct2[OF conjunct2[OF issue_priorities[OF audit_demo(1)]]])

subsection \<open>Memory-document reports\<close>

lemma map_raising_Inr:
  "map_raising f xs = Inr ys \<Longrightarrow> y \<in> set ys \<Longrightarrow> \<exists>x \<in> set xs. f x = Inr y"
proof (induction xs arbitrary: ys)
  case Nil
  then show ?case by simp
next
  case (Cons x xs)
  then show ?case by (auto split: sum.splits)
qed

lemma analyze_memory_file_absent:
  "\<not> (exists e path \<and> is_file e path) \<Longrightarrow>
   analyze_memory_file e path scope root tracked = Inr (MemoryFileReport (rel_str path root) False scope)"
  by (simp add: analyze_memory_file_def MemoryFileReport_def Let_def)

text \<open>
  Claim C8. In every report that the memory analyzer returns, the missing imports
  are among the imports, and a report with \<^verbatim>\<open>exists = false\<close> has zero bytes,
  lines, words and headings and empty lists of imports, missing imports, issues and
  recommendations. The same holds for the memory reports of a report that \<^verbatim>\<open>audit\<close>
  returns.
\<close>

theorem memory_report_invariant:
  "(\<forall>r. analyze_memory_file e path scope root tracked = Inr r \<longrightarrow>
      set (mem_missing_imports r) \<subseteq> set (mem_imports r) \<and>
      (\<not> mem_exists r \<longrightarrow>
         mem_bytes r = 0 \<and> mem_lines r = 0 \<and> mem_word_count r = 0 \<and> mem_heading_count r = 0 \<and>
         mem_imports r = [] \<and> mem_missing_imports r = [] \<and> mem_issues r = [] \<and>
         mem_recommendations r = [])) \<and>
   (\<forall>rep r. audit e path u = Inr rep \<and>
      r \<in> set (discovered_files (claude_memory rep)) \<union> set (missing_standard_locations (claude_memory rep)) \<longrightarrow>
      set (mem_missing_imports r) \<subseteq> set (mem_imports r) \<and>
      (\<not> mem_exists r \<longrightarrow>
         mem_bytes r = 0 \<and> mem_lines r = 0 \<and> mem_word_count r = 0 \<and> mem_heading_count r = 0 \<and>
         mem_imports r = [] \<and> mem_missing_imports r = [] \<and> mem_issues r = [] \<and>
         mem_recommendations r = []))"
proof -
  have one: "set (mem_missing_imports r) \<subseteq> set (mem_imports r) \<and>
      (\<not> mem_exists r \<longrightarrow>
         mem_bytes r = 0 \<and> mem_lines r = 0 \<and> mem_word_count r = 0 \<and> mem_heading_count r = 0 \<and>
         mem_imports r = [] \<and> mem_missing_imports r = [] \<and> mem_issues r = [] \<and>
         mem_recommendations r = [])"
    if "analyze_memory_file e p s rt tr = Inr r" for p s rt tr r
  proof (cases "exists e p \<and> is_file e p")
    case False
    with that have "r = MemoryFileReport (rel_str p rt) False s"
      by (simp add: analyze_memory_file_absent)
    then show ?thesis by (simp add: MemoryFileReport_def)
  next
    case True
    with that show ?thesis
      by (auto simp: analyze_memory_file_def Let_def and_then_Inr MemoryFileReport_def)
  qed
  have two: "set (mem_missing_imports r) \<subseteq> set (mem_imports r) \<and>
      (\<not> mem_exists r \<longrightarrow>
         mem_bytes r = 0 \<and> mem_lines r = 0 \<and> mem_word_count r = 0 \<and> mem_heading_count r = 0 \<and>
         mem_imports r = [] \<and> mem_missing_imports r = [] \<and> mem_issues r = [] \<and>
         mem_recommendations r = [])"
    if a: "audit e path u = Inr rep"
      and r: "r \<in> set (discovered_files (claude_memory rep)) \<union>
                set (missing_standard_locations (claude_memory rep))" for rep r
  proof -
    from audit_returns[OF a] obtain tracked mrs srs crs krs ars ds where
      m: "map_raising (\<lambda>(p, s). analyze_memory_file e p s (resolve e path) tracked)
            (discover_memory_files e (resolve e path)) = Inr mrs"
      and rep: "rep = report_of e (resolve e path) tracked mrs srs crs krs ars ds"
      by blast
    from r have "r \<in> set mrs"
      by (auto simp: rep report_of_def Let_def)
    from map_raising_Inr[OF m this] obtain p s where
      "analyze_memory_file e p s (resolve e path) tracked = Inr r"
      by auto
    then show ?thesis by (rule one)
  qed
  show ?thesis
    using one two by blast
qed

theorem memory_report_invariant_witness:
  "analyze_memory_file env_mem (PyPath True [''repo'', ''CLAUDE.md'']) ''project''
     (PyPath True [''repo'']) None = Inr mem_report \<and>
   mem_exists mem_report \<and>
   mem_imports mem_report = [''docs/a.md'', ''missing.md''] \<and>
   mem_missing_imports mem_report = [''missing.md''] \<and>
   set (mem_missing_imports mem_report) \<subseteq> set (mem_imports mem_report) \<and>
   analyze_memory_file env_mem (PyPath True [''repo'', ''.claude'', ''CLAUDE.md'']) ''project''
     (PyPath True [''repo'']) None = Inr absent_report \<and>
   mem_exists absent_report = False \<and>
   mem_lines absent_report = 0 \<and> mem_issues absent_report = []"
proof -
  have c: "case analyze_memory_file env_mem (PyPath True [''repo'', ''CLAUDE.md'']) ''project''
              (PyPath True [''repo'']) None of Inl x \<Rightarrow> False
           | Inr r \<Rightarrow> mem_exists r \<and> mem_imports r = [''docs/a.md'', ''missing.md''] \<and>
               mem_missing_imports r = [''missing.md'']"
    by code_simp
  have a: "analyze_memory_file env_mem (PyPath True [''repo'', ''CLAUDE.md'']) ''project''
     (PyPath True [''repo'']) None = Inr mem_report"
    using c unfolding mem_report_def
    by (cases "analyze_memory_file env_mem (PyPath True [''repo'', ''CLAUDE.md'']) ''project''
     (PyPath True [''repo'']) None") simp_all
  have f: "mem_exists mem_report \<and> mem_imports mem_report = [''docs/a.md'', ''missing.md''] \<and>
   mem_missing_imports mem_report = [''missing.md'']"
    using c unfolding mem_report_def
    by (cases "analyze_memory_file env_mem (PyPath True [''repo'', ''CLAUDE.md'']) ''project''
     (PyPath True [''repo'']) None") simp_all
  have d: "case analyze_memory_file env_mem (PyPath True [''repo'', ''.claude'', ''CLAUDE.md''])
              ''project'' (PyPath True [''repo'']) None of Inl x \<Rightarrow> False
           | Inr r \<Rightarrow> \<not> mem_exists r"
    by code_simp
  have b: "analyze_memory_file env_mem (PyPath True [''repo'', ''.claude'', ''CLAUDE.md'']) ''project''
     (PyPath True [''repo'']) None = Inr absent_report \<and> mem_exists absent_report = False"
    using d unfolding absent_report_def
    by (cases "analyze_memory_file env_mem (PyPath True [''repo'', ''.claude'', ''CLAUDE.md''])
     ''project'' (PyPath True [''repo'']) None") simp_all
  note t1 = conjunct1[OF memory_report_invariant[of env_mem "PyPath True [''repo'', ''CLAUDE.md'']"
      "''project''" "PyPath True [''repo'']" None], rule_format, OF a]
  note t2 = conjunct1[OF memory_report_invariant[of env_mem
      "PyPath True [''repo'', ''.claude'', ''CLAUDE.md'']"
      "''project''" "PyPath True [''repo'']" None], rule_format, OF conjunct1[OF b]]
  from t2 b have z: "mem_lines absent_report = 0 \<and> mem_issues absent_report = []"
    by simp
  show ?thesis
    using a f t1 b z by simp
qed

subsection \<open>Discovery of memory documents\<close>

lemma div_path_name:
  "div_path p ''CLAUDE.md'' = child_path p [''CLAUDE.md'']"
  "div_path p ''CLAUDE.local.md'' = child_path p [''CLAUDE.local.md'']"
  "div_path p ''.claude'' = child_path p [''.claude'']"
  by (simp_all add: div_path_def Path_def joinpath_def child_path_def startswith_def)

lemma project_locations_paths:
  "map fst (project_locations root) =
     [child_path root [''CLAUDE.md''], child_path root [''.claude'', ''CLAUDE.md''],
      child_path root [''CLAUDE.local.md''], child_path root [''.claude'', ''CLAUDE.local.md'']]"
  by (simp add: project_locations_def div_path_name child_path_def)

lemma project_locations_distinct: "distinct (map fst (project_locations root))"
  unfolding project_locations_paths by (simp add: child_path_def)

lemma add_nested_extends:
  "\<exists>ys. add_nested sc cs ps = cs @ ys \<and>
        set (map fst ys) = set ps - set (map fst cs) \<and>
        (\<forall>y \<in> set ys. snd y = sc) \<and>
        (distinct (map fst cs) \<longrightarrow> distinct (map fst (cs @ ys)))"
proof (induction ps arbitrary: cs)
  case Nil
  then show ?case by simp
next
  case (Cons p ps)
  show ?case
  proof (cases "p \<in> set (map fst cs)")
    case True
    with Cons[of cs] show ?thesis by auto
  next
    case False
    from Cons[of "cs @ [(p, sc)]"] obtain ys where
      a: "add_nested sc (cs @ [(p, sc)]) ps = (cs @ [(p, sc)]) @ ys"
      and s: "set (map fst ys) = set ps - set (map fst (cs @ [(p, sc)]))"
      and c: "\<forall>y \<in> set ys. snd y = sc"
      and d: "distinct (map fst (cs @ [(p, sc)])) \<longrightarrow> distinct (map fst ((cs @ [(p, sc)]) @ ys))"
      by blast
    have "add_nested sc cs (p # ps) = cs @ ((p, sc) # ys)"
      using False a by simp
    moreover have "set (map fst ((p, sc) # ys)) = set (p # ps) - set (map fst cs)"
      using False s by auto
    moreover have "\<forall>y \<in> set ((p, sc) # ys). snd y = sc"
      using c by simp
    moreover have "distinct (map fst cs) \<longrightarrow> distinct (map fst (cs @ ((p, sc) # ys)))"
      using False d by simp
    ultimately show ?thesis by blast
  qed
qed

lemma add_nested_twice:
  assumes "distinct (map fst cs)"
  shows "distinct (map fst (add_nested s2 (add_nested s1 cs ps1) ps2)) \<and>
         take (length cs) (add_nested s2 (add_nested s1 cs ps1) ps2) = cs \<and>
         (\<forall>x \<in> set (drop (length cs) (add_nested s2 (add_nested s1 cs ps1) ps2)).
            fst x \<notin> set (map fst cs) \<and> (snd x = s1 \<or> snd x = s2)) \<and>
         set ps1 \<union> set ps2 \<subseteq> set (map fst (add_nested s2 (add_nested s1 cs ps1) ps2))"
proof -
  from add_nested_extends[of s1 cs ps1] assms obtain ys where
    a: "add_nested s1 cs ps1 = cs @ ys"
    and ys: "set (map fst ys) = set ps1 - set (map fst cs)"
    and ysc: "\<forall>y \<in> set ys. snd y = s1"
    and yd: "distinct (map fst (cs @ ys))"
    by blast
  from add_nested_extends[of s2 "cs @ ys" ps2] yd obtain zs where
    b: "add_nested s2 (cs @ ys) ps2 = (cs @ ys) @ zs"
    and zs: "set (map fst zs) = set ps2 - set (map fst (cs @ ys))"
    and zsc: "\<forall>y \<in> set zs. snd y = s2"
    and zd: "distinct (map fst ((cs @ ys) @ zs))"
    by blast
  have d: "add_nested s2 (add_nested s1 cs ps1) ps2 = cs @ ys @ zs"
    by (simp add: a b)
  have 1: "distinct (map fst (cs @ ys @ zs))"
    using zd by simp
  have 3: "fst x \<notin> set (map fst cs) \<and> (snd x = s1 \<or> snd x = s2)" if "x \<in> set (ys @ zs)" for x
  proof -
    from that have "x \<in> set ys \<or> x \<in> set zs" by simp
    then show ?thesis
    proof
      assume x: "x \<in> set ys"
      then have "fst x \<in> set (map fst ys)" by simp
      with ys ysc x show ?thesis by auto
    next
      assume x: "x \<in> set zs"
      then have "fst x \<in> set (map fst zs)" by simp
      with zs zsc x show ?thesis by auto
    qed
  qed
  have 4: "set ps1 \<union> set ps2 \<subseteq> set (map fst (cs @ ys @ zs))"
    using ys zs by auto
  show ?thesis
    unfolding d using 1 3 4 by simp
qed

text \<open>
  Claim C3, as amended. The discovered list is the four well-known candidates followed
  by entries of the recursive search, each labelled as nested and none of them among
  the candidates, and no path occurs twice: the search skips what is already
  enumerated. Housekeeping directories are not excluded: no result of the recursive
  glob is dropped for the directories above it, every path that \<^verbatim>\<open>rglob\<close> yields is
  in the list.
\<close>

theorem discover_memory_files_nested:
  "distinct (map fst (discover_memory_files e root)) \<and>
   take 4 (discover_memory_files e root) = project_locations root \<and>
   (\<forall>x \<in> set (drop 4 (discover_memory_files e root)).
      fst x \<notin> set (map fst (project_locations root)) \<and>
      (snd x = ''project-nested'' \<or> snd x = ''local-nested'')) \<and>
   set (rglob e root (\<lambda>n. n = ''CLAUDE.md'')) \<union> set (rglob e root (\<lambda>n. n = ''CLAUDE.local.md''))
     \<subseteq> set (map fst (discover_memory_files e root))"
proof -
  have len: "length (project_locations root) = 4"
    by (simp add: project_locations_def)
  note g = add_nested_twice[OF project_locations_distinct[of root], of "''local-nested''"
      "''project-nested''" "rglob e root (\<lambda>n. n = ''CLAUDE.md'')"
      "rglob e root (\<lambda>n. n = ''CLAUDE.local.md'')", folded discover_memory_files_def, unfolded len]
  note g1 = conjunct1[OF g]
  note g2 = conjunct1[OF conjunct2[OF g]]
  note g3 = conjunct1[OF conjunct2[OF conjunct2[OF g]]]
  note g4 = conjunct2[OF conjunct2[OF conjunct2[OF g]]]
  show ?thesis
  proof (intro conjI)
    show "distinct (map fst (discover_memory_files e root))" by (rule g1)
    show "take 4 (discover_memory_files e root) = project_locations root" by (rule g2)
    show "\<forall>x \<in> set (drop 4 (discover_memory_files e root)).
      fst x \<notin> set (map fst (project_locations root)) \<and>
      (snd x = ''project-nested'' \<or> snd x = ''local-nested'')"
      using g3 by simp
    show "set (rglob e root (\<lambda>n. n = ''CLAUDE.md'')) \<union>
        set (rglob e root (\<lambda>n. n = ''CLAUDE.local.md''))
      \<subseteq> set (map fst (discover_memory_files e root))"
      by (rule g4)
  qed
qed

theorem discover_memory_files_nested_witness:
  "(PyPath True [''repo'', ''node_modules'', ''pkg'', ''CLAUDE.md''], ''project-nested'')
     \<in> set (drop 4 (discover_memory_files env_demo (PyPath True [''repo'']))) \<and>
   PyPath True [''repo'', ''node_modules'', ''pkg'', ''CLAUDE.md'']
     \<notin> set (map fst (project_locations (PyPath True [''repo'']))) \<and>
   PyPath True [''repo'', ''node_modules'', ''pkg'', ''CLAUDE.md'']
     \<in> set (rglob env_demo (PyPath True [''repo'']) (\<lambda>n. n = ''CLAUDE.md'')) \<and>
   PyPath True [''repo'', ''node_modules'', ''pkg'', ''CLAUDE.md'']
     \<in> set (map fst (discover_memory_files env_demo (PyPath True [''repo''])))"
proof -
  have m: "(PyPath True [''repo'', ''node_modules'', ''pkg'', ''CLAUDE.md''], ''project-nested'')
     \<in> set (drop 4 (discover_memory_files env_demo (PyPath True [''repo''])))"
    by code_simp
  have r: "PyPath True [''repo'', ''node_modules'', ''pkg'', ''CLAUDE.md'']
     \<in> set (rglob env_demo (PyPath True [''repo'']) (\<lambda>n. n = ''CLAUDE.md''))"
    by code_simp
  note t = discover_memory_files_nested[of env_demo "PyPath True [''repo'']"]
  have n: "PyPath True [''repo'', ''node_modules'', ''pkg'', ''CLAUDE.md'']
     \<notin> set (map fst (project_locations (PyPath True [''repo''])))"
    using conjunct1[OF conjunct2[OF conjunct2[OF t]], rule_format, OF m] by simp
  have d: "PyPath True [''repo'', ''node_modules'', ''pkg'', ''CLAUDE.md'']
     \<in> set (map fst (discover_memory_files env_demo (PyPath True [''repo''])))"
    using conjunct2[OF conjunct2[OF conjunct2[OF t]]] r by (simp add: subset_iff)
  show ?thesis
    by (intro conjI m n r d)
qed

text \<open>
  Claim C3 as stated fails: a memory document below \<^verbatim>\<open>node_modules\<close> is discovered,
  as a nested project document.
\<close>

theorem discover_memory_files_housekeeping:
  "(PyPath True [''repo'', ''node_modules'', ''pkg'', ''CLAUDE.md''], ''project-nested'')
     \<in> set (discover_memory_files env_demo (PyPath True [''repo''])) \<and>
   ''node_modules'' \<in> set exclude_dirs \<and>
   ''node_modules'' \<in> set (parts (parent (PyPath True [''repo'', ''node_modules'', ''pkg'', ''CLAUDE.md''])))"
  by code_simp

subsection \<open>Line counts of skills and subagents\<close>

text \<open>
  Claim C4 fails on the code for skills and subagents: for an existing, empty
  \<^verbatim>\<open>SKILL.md\<close> and an existing, empty subagent file the reported line count is 1,
  where the memory analyzer reports 0 lines for an empty memory document.
\<close>

theorem empty_artifact_line_counts:
  "safe_read_text env_demo (PyPath True [''repo'', ''.claude'', ''skills'', ''s1'', ''SKILL.md'']) = [] \<and>
   skill_md_lines (analyze_skill env_demo (PyPath True [''repo'', ''.claude'', ''skills'', ''s1''])
      ''project'' (PyPath True [''repo''])) = 1 \<and>
   safe_read_text env_demo (PyPath True [''repo'', ''.claude'', ''agents'', ''a.md'']) = [] \<and>
   agent_md_lines (analyze_subagent env_demo (PyPath True [''repo'', ''.claude'', ''agents'', ''a.md''])
      ''project'' (PyPath True [''repo''])) = 1 \<and>
   safe_read_text env_demo (PyPath True [''repo'', ''CLAUDE.md'']) = [] \<and>
   map_sum id mem_lines (analyze_memory_file env_demo (PyPath True [''repo'', ''CLAUDE.md''])
      ''project'' (PyPath True [''repo'']) None) = Inr 0"
  by code_simp

subsection \<open>The clock only reaches the timestamp\<close>










subsection \<open>Reference resolution\<close>

lemma split_on_from_append:
  "split_on_from sep w (a @ sep # b) = split_on_from sep w a @ split_on_from sep [] b"
  by (induction a arbitrary: w) simp_all

lemma expanduser_own_home:
  assumes "raw = ''~'' \<or> startswith raw ''~/''"
  shows "expanduser e raw =
     (let r = rev (dropWhile (\<lambda>c. c = CHR ''/'') (rev (home_var e))) @ drop 1 raw
      in if r = [] then ''/'' else r)"
proof -
  from assms have s: "startswith raw ''~''"
    by (auto simp: startswith_def) (cases raw; simp)
  from assms have t: "takeWhile (\<lambda>c. c \<noteq> CHR ''/'') (tl raw) = []"
    by (cases raw) (auto simp: startswith_def, (case_tac list; simp)+)
  from s have d: "drop (Suc 0) raw = tl raw"
    by (cases raw) simp_all
  show ?thesis
    using s by (simp add: expanduser_def t d Let_def)
qed

lemma Path_home_join:
  assumes "t = [] \<or> (\<exists>t'. t = CHR ''/'' # t')"
  shows "Path (if h @ t = [] then ''/'' else h @ t) =
     PyPath (is_absolute (Path (if h = [] then ''/'' else h)))
       (names (Path (if h = [] then ''/'' else h)) @ names (Path t))"
proof (cases "t = []")
  case True
  then show ?thesis by (simp add: Path_def)
next
  case False
  with assms obtain t' where t: "t = CHR ''/'' # t'" by blast
  show ?thesis
  proof (cases h)
    case Nil
    then show ?thesis by (simp add: t Path_def startswith_def)
  next
    case (Cons c cs)
    then show ?thesis
      by (simp add: t Path_def startswith_def split_on_from_append[of _ _ "c # cs", simplified])
  qed
qed

text \<open>
  Claim C6, as amended. The token is stripped first. A token that starts with \<^verbatim>\<open>~\<close>
  resolves to \<^verbatim>\<open>Path(os.path.expanduser(token))\<close>, whatever the artifact's directory
  and the root are; when it is \<^verbatim>\<open>~\<close> alone or starts with \<^verbatim>\<open>~/\<close>, this is the
  user's home directory followed by the rest of the token. Any other token that is
  absolute is used as it is; any other token is joined to the artifact's directory
  and normalised, the root playing no part.
\<close>

theorem resolve_import_cases:
  "(startswith (strip raw) ''~'' \<longrightarrow>
      resolve_import e base raw root = Path (expanduser e (strip raw)) \<and>
      resolve_import e base raw root = resolve_import e base' raw root') \<and>
   (strip raw = ''~'' \<or> startswith (strip raw) ''~/'' \<longrightarrow>
      resolve_import e base raw root =
        PyPath (is_absolute (home e)) (names (home e) @ names (Path (drop 1 (strip raw))))) \<and>
   (\<not> startswith (strip raw) ''~'' \<and> startswith (strip raw) ''/'' \<longrightarrow>
      resolve_import e base raw root = Path (strip raw) \<and>
      is_absolute (resolve_import e base raw root)) \<and>
   (\<not> startswith (strip raw) ''~'' \<and> \<not> startswith (strip raw) ''/'' \<longrightarrow>
      resolve_import e base raw root =
        PyPath True (normalise (if is_absolute base then [] else cwd e)
                       (names base @ names (Path (strip raw)))) \<and>
      resolve_import e base raw root = resolve_import e base raw root')"
proof -
  have a: "resolve_import e b raw r = Path (expanduser e (strip raw))"
    if "startswith (strip raw) ''~''" for b r
    using that by (simp add: resolve_import_def Let_def)
  have h: "resolve_import e base raw root =
        PyPath (is_absolute (home e)) (names (home e) @ names (Path (drop 1 (strip raw))))"
    if t: "strip raw = ''~'' \<or> startswith (strip raw) ''~/''"
  proof -
    from t have s: "startswith (strip raw) ''~''"
      by (auto simp: startswith_def) (cases "strip raw"; simp)
    from t have d: "drop 1 (strip raw) = [] \<or> (\<exists>t'. drop 1 (strip raw) = CHR ''/'' # t')"
      by (cases "strip raw") (auto simp: startswith_def, (case_tac list; simp)+)
    have hm: "home e = Path (let r = rev (dropWhile (\<lambda>c. c = CHR ''/'') (rev (home_var e)))
                            in if r = [] then ''/'' else r)"
      using expanduser_own_home[of "''~''" e] by (simp add: home_def Let_def)
    show ?thesis
      unfolding a[OF s] expanduser_own_home[OF t] hm Let_def
      by (rule Path_home_join[OF d])
  qed
  have b: "resolve_import e b raw r = Path (strip raw) \<and> is_absolute (resolve_import e b raw r)"
    if "\<not> startswith (strip raw) ''~''" "startswith (strip raw) ''/''" for b r
    using that by (simp add: resolve_import_def Let_def Path_def)
  have c: "resolve_import e base raw r =
        PyPath True (normalise (if is_absolute base then [] else cwd e)
                       (names base @ names (Path (strip raw))))"
    if "\<not> startswith (strip raw) ''~''" "\<not> startswith (strip raw) ''/''" for r
    using that by (simp add: resolve_import_def Let_def Path_def joinpath_def resolve_def)
  show ?thesis
  proof (intro conjI impI)
    assume s: "startswith (strip raw) ''~''"
    show "resolve_import e base raw root = Path (expanduser e (strip raw))" by (rule a[OF s])
    show "resolve_import e base raw root = resolve_import e base' raw root'"
      by (simp only: a[OF s])
  next
    assume "strip raw = ''~'' \<or> startswith (strip raw) ''~/''"
    then show "resolve_import e base raw root =
        PyPath (is_absolute (home e)) (names (home e) @ names (Path (drop 1 (strip raw))))"
      by (rule h)
  next
    assume s: "\<not> startswith (strip raw) ''~'' \<and> startswith (strip raw) ''/''"
    show "resolve_import e base raw root = Path (strip raw)"
      by (rule conjunct1[OF b[OF conjunct1[OF s] conjunct2[OF s]]])
    show "is_absolute (resolve_import e base raw root)"
      by (rule conjunct2[OF b[OF conjunct1[OF s] conjunct2[OF s]]])
  next
    assume s: "\<not> startswith (strip raw) ''~'' \<and> \<not> startswith (strip raw) ''/''"
    show "resolve_import e base raw root =
        PyPath True (normalise (if is_absolute base then [] else cwd e)
                       (names base @ names (Path (strip raw))))"
      by (rule c[OF conjunct1[OF s] conjunct2[OF s]])
    show "resolve_import e base raw root = resolve_import e base raw root'"
      by (simp only: c[OF conjunct1[OF s] conjunct2[OF s]])
  qed
qed

theorem resolve_import_witness:
  "startswith (strip ''~/shared.md'') ''~/'' \<and>
   resolve_import env_demo (PyPath True [''repo'', ''docs'']) ''~/shared.md'' (PyPath True [''repo''])
     = PyPath True [''home'', ''u'', ''shared.md''] \<and>
   startswith (strip ''/etc/x.md'') ''/'' \<and>
   resolve_import env_demo (PyPath True [''repo'', ''docs'']) ''/etc/x.md'' (PyPath True [''repo''])
     = PyPath True [''etc'', ''x.md''] \<and>
   resolve_import env_demo (PyPath True [''repo'', ''sub'']) ''docs/x.md'' (PyPath True [''repo''])
     = PyPath True [''repo'', ''sub'', ''docs'', ''x.md'']"
proof -
  have 1: "strip ''~/shared.md'' = ''~/shared.md''" "strip ''/etc/x.md'' = ''/etc/x.md''"
    "strip ''docs/x.md'' = ''docs/x.md''"
    by code_simp+
  have 2: "startswith ''~/shared.md'' ''~/''" "startswith ''~/shared.md'' ''~''"
    "startswith ''/etc/x.md'' ''/''" "\<not> startswith ''/etc/x.md'' ''~''"
    "\<not> startswith ''docs/x.md'' ''/''" "\<not> startswith ''docs/x.md'' ''~''"
    by (simp_all add: startswith_def)
  have 3: "home env_demo = PyPath True [''home'', ''u'']"
    "Path ''/shared.md'' = PyPath True [''shared.md'']"
    "Path ''/etc/x.md'' = PyPath True [''etc'', ''x.md'']"
    "Path ''docs/x.md'' = PyPath False [''docs'', ''x.md'']"
    by code_simp+
  note t1 = resolve_import_cases[of "''~/shared.md''" env_demo "PyPath True [''repo'', ''docs'']"
      "PyPath True [''repo'']", unfolded 1]
  note t2 = resolve_import_cases[of "''/etc/x.md''" env_demo "PyPath True [''repo'', ''docs'']"
      "PyPath True [''repo'']", unfolded 1]
  note t3 = resolve_import_cases[of "''docs/x.md''" env_demo "PyPath True [''repo'', ''sub'']"
      "PyPath True [''repo'']", unfolded 1]
  have a: "resolve_import env_demo (PyPath True [''repo'', ''docs'']) ''~/shared.md''
      (PyPath True [''repo'']) = PyPath True [''home'', ''u'', ''shared.md'']"
    using conjunct1[OF conjunct2[OF t1]] 2 by (simp add: 3)
  have b: "resolve_import env_demo (PyPath True [''repo'', ''docs'']) ''/etc/x.md''
      (PyPath True [''repo'']) = PyPath True [''etc'', ''x.md'']"
    using conjunct1[OF conjunct2[OF conjunct2[OF t2]]] 2 by (simp add: 3)
  have c: "resolve_import env_demo (PyPath True [''repo'', ''sub'']) ''docs/x.md''
      (PyPath True [''repo'']) = PyPath True [''repo'', ''sub'', ''docs'', ''x.md'']"
    using conjunct2[OF conjunct2[OF conjunct2[OF t3]]] 2 by (simp add: 3)
  show ?thesis
    unfolding 1 by (intro conjI 2 a b c)
qed

text \<open>
  Claim C6 as stated fails for a token \<^verbatim>\<open>~name/...\<close>: with no account \<open>bob\<close> the
  token \<^verbatim>\<open>~bob/x.md\<close> is left as the relative path \<^verbatim>\<open>~bob/x.md\<close>, which is not
  below the user's home directory \<^verbatim>\<open>/home/u\<close>.
\<close>

theorem resolve_import_other_account:
  "startswith (strip ''~bob/x.md'') ''~'' \<and>
   home env_demo = PyPath True [''home'', ''u''] \<and>
   resolve_import env_demo (PyPath True [''repo'', ''docs'']) ''~bob/x.md'' (PyPath True [''repo''])
     = PyPath False [''~bob'', ''x.md'']"
  by code_simp

subsection \<open>Exit status\<close>




end
